theory Spec2Isabelle
  imports Main "HOL-Library.Sublist"
begin

section \<open>Strings and errors\<close>

text \<open>
  JavaScript exceptions are values. \<open>AbortError\<close> is the error that
  \<^verbatim>\<open>createAbortError\<close> of cancellation.ts builds, \<open>ResourceNotFoundError\<close> the class
  that the resource retrievers raise, \<open>TypeError\<close> what the \<^verbatim>\<open>URL\<close> constructor raises
  on an invalid URL, \<open>Error\<close> every \<^verbatim>\<open>new Error(message)\<close>.
\<close>

datatype js_error = AbortError | ResourceNotFoundError | TypeError string | Error string

text \<open>\<^verbatim>\<open>err.name === 'AbortError'\<close> (cancellation.ts, \<^verbatim>\<open>isAbortError\<close>).\<close>

fun isAbortError :: "js_error \<Rightarrow> bool" where
  "isAbortError AbortError = True"
| "isAbortError _ = False"

text \<open>
  \<^verbatim>\<open>throwIfCancelled(token)\<close>: the token is read as the boolean
  \<^verbatim>\<open>token.isCancellationRequested\<close> at the moment of the check.
\<close>

definition throwIfCancelled :: "bool \<Rightarrow> js_error + unit" where
  "throwIfCancelled isCancellationRequested =
     (if isCancellationRequested then Inl AbortError else Inr ())"

text \<open>\<^verbatim>\<open>s.startsWith(p)\<close> and \<^verbatim>\<open>s.includes(p)\<close> of JavaScript strings.\<close>

fun startsWith :: "string \<Rightarrow> string \<Rightarrow> bool" where
  "startsWith s [] = True"
| "startsWith [] (c # p) = False"
| "startsWith (a # s) (c # p) = (a = c \<and> startsWith s p)"

fun str_includes :: "string \<Rightarrow> string \<Rightarrow> bool" where
  "str_includes [] p = (p = [])"
| "str_includes (a # s) p = (startsWith (a # s) p \<or> str_includes s p)"

section \<open>URLs\<close>

text \<open>
  A \<^verbatim>\<open>URL\<close> object of the session: \<open>protocol\<close> is the scheme with its colon
  (\<^verbatim>\<open>https:\<close>, \<^verbatim>\<open>file:\<close>), \<open>host\<close> the authority (empty for the \<^verbatim>\<open>file:\<close> URLs
  of the workspace), \<open>segments\<close> the path segments, one after each \<^verbatim>\<open>/\<close> of the
  path, so that a directory URL ends with the empty segment. The URIs the session
  exchanges are text-document and directory URIs; query and fragment are not modelled.
\<close>

record url =
  protocol :: string
  host :: string
  segments :: "string list"

definition pathname :: "url \<Rightarrow> string" where
  "pathname u = concat (map (\<lambda>seg. CHR ''/'' # seg) (segments u))"

definition href :: "url \<Rightarrow> string" where
  "href u = protocol u @ ''//'' @ host u @ pathname u"

text \<open>
  The path state of the URL parser: a \<^verbatim>\<open>..\<close> segment shortens the path built so far
  (nothing happens at the root), a \<^verbatim>\<open>.\<close> segment is skipped, and either of them in
  last position leaves a trailing empty segment.
\<close>

fun shorten :: "string list \<Rightarrow> string list" where
  "shorten [] = []"
| "shorten (x # xs) = butlast (x # xs)"

fun path_state :: "string list \<Rightarrow> string list \<Rightarrow> string list" where
  "path_state acc [] = acc"
| "path_state acc [seg] =
     (if seg = ''..'' then shorten acc @ [''''] else
      if seg = ''.'' then acc @ [''''] else acc @ [seg])"
| "path_state acc (seg # rest) =
     (if seg = ''..'' then path_state (shorten acc) rest else
      if seg = ''.'' then path_state acc rest else path_state (acc @ [seg]) rest)"

fun split_slash :: "string \<Rightarrow> string list" where
  "split_slash [] = [[]]"
| "split_slash (c # cs) =
     (if c = CHR ''/'' then [] # split_slash cs
      else (case split_slash cs of [] \<Rightarrow> [[c]] | w # ws \<Rightarrow> (c # w) # ws))"

text \<open>
  \<^verbatim>\<open>new URL(s)\<close> for an absolute URL \<^verbatim>\<open>scheme://authority/path\<close>: everything else is
  the \<^verbatim>\<open>TypeError\<close> of an invalid URL. The path is normalised by \<open>path_state\<close>; a
  missing path is \<^verbatim>\<open>/\<close>.
\<close>

definition new_URL :: "string \<Rightarrow> js_error + url" where
  "new_URL s =
     (let scheme = takeWhile (\<lambda>c. c \<noteq> CHR '':'') s;
          rest = dropWhile (\<lambda>c. c \<noteq> CHR '':'') s
      in if scheme = [] \<or> \<not> startsWith rest ''://''
         then Inl (TypeError (''Invalid URL: '' @ s))
         else
           let r = drop 3 rest;
               authority = takeWhile (\<lambda>c. c \<noteq> CHR ''/'') r;
               p = dropWhile (\<lambda>c. c \<noteq> CHR ''/'') r
           in Inr \<lparr>protocol = scheme @ '':'', host = authority,
                   segments = (if p = [] then [''''] else path_state [] (split_slash (tl p)))\<rparr>)"

text \<open>
  Modelled from the spec: uri.ts (\<^verbatim>\<open>relativeUrl\<close>, \<^verbatim>\<open>URLMap\<close>, \<^verbatim>\<open>URLSet\<close>) is not among
  the sources. The spec has \<^verbatim>\<open>relPath = uri - httpRoot\<close> and \<^verbatim>\<open>fileRoot + relPath\<close>
  under relative resolution: \<open>relativeUrl base target\<close> is the reference that
  resolves to \<open>target\<close> against \<open>base\<close>. With the same protocol and host it is a path:
  one \<^verbatim>\<open>..\<close> for each directory of \<open>base\<close> that \<open>target\<close> does not share, then the
  rest of \<open>target\<close>; otherwise it is the absolute URL \<open>target\<close>. \<open>relative_text\<close>
  is the string that server.ts handles.
\<close>

datatype relative = AbsoluteRef url | PathRef "string list"

fun strip_common :: "string list \<Rightarrow> string list \<Rightarrow> string list \<times> string list" where
  "strip_common (a # as) (b # bs) =
     (if a = b \<and> bs \<noteq> [] then strip_common as bs else (a # as, b # bs))"
| "strip_common as bs = (as, bs)"

definition relativeUrl :: "url \<Rightarrow> url \<Rightarrow> relative" where
  "relativeUrl base target =
     (if protocol base \<noteq> protocol target \<or> host base \<noteq> host target then AbsoluteRef target
      else case strip_common (butlast (segments base)) (segments target) of
             (ups, rest) \<Rightarrow> PathRef (replicate (length ups) ''..'' @ rest))"

fun join_slash :: "string list \<Rightarrow> string" where
  "join_slash [] = []"
| "join_slash [seg] = seg"
| "join_slash (seg # rest) = seg @ CHR ''/'' # join_slash rest"

fun relative_text :: "relative \<Rightarrow> string" where
  "relative_text (AbsoluteRef u) = href u"
| "relative_text (PathRef segs) = join_slash segs"

text \<open>
  \<^verbatim>\<open>new URL(relative, base)\<close>: an absolute reference is taken as it is, a path is
  resolved against the directory of the base and normalised.
\<close>

fun new_URL_rel :: "relative \<Rightarrow> url \<Rightarrow> url" where
  "new_URL_rel (AbsoluteRef u) base = u"
| "new_URL_rel (PathRef segs) base =
     \<lparr>protocol = protocol base, host = host base,
      segments = path_state [] (butlast (segments base) @ segs)\<rparr>"

text \<open>
  The URL objects that \<open>new_URL\<close> yields: a scheme without a colon, a host without a
  slash, and a normalised path, which has a segment, no \<^verbatim>\<open>/\<close> inside a segment and no
  segment \<^verbatim>\<open>.\<close> or \<^verbatim>\<open>..\<close>. A directory URL ends with the empty segment: the
  trailing slash that server.ts puts on \<^verbatim>\<open>fileRootUri\<close> and that the spec requires of
  the roots.
\<close>

definition plain_segments :: "string list \<Rightarrow> bool" where
  "plain_segments segs =
     list_all (\<lambda>seg. seg \<noteq> ''..'' \<and> seg \<noteq> ''.'' \<and> CHR ''/'' \<notin> set seg) segs"

definition valid_url :: "url \<Rightarrow> bool" where
  "valid_url u =
     (protocol u \<noteq> [] \<and> last (protocol u) = CHR '':'' \<and> butlast (protocol u) \<noteq> [] \<and>
      CHR '':'' \<notin> set (butlast (protocol u)) \<and> CHR ''/'' \<notin> set (host u) \<and>
      segments u \<noteq> [] \<and> plain_segments (segments u))"

definition is_directory :: "url \<Rightarrow> bool" where
  "is_directory u = (valid_url u \<and> last (segments u) = '''')"

section \<open>The URI mapper of a connection (server.ts)\<close>

text \<open>
  \<^verbatim>\<open>mapHttpToFileUrlSimple\<close> and \<^verbatim>\<open>mapFileToHttpUrlSimple\<close> close over the roots of
  the connection; here the roots are arguments.
\<close>

definition mapHttpToFileUrlSimple :: "url \<Rightarrow> url \<Rightarrow> url \<Rightarrow> js_error + url" where
  "mapHttpToFileUrlSimple httpRootUri fileRootUri uri =
     (let relative = relativeUrl httpRootUri uri;
          fileUri = new_URL_rel relative fileRootUri
      in if \<not> startsWith (href fileUri) (href fileRootUri)
         then Inl (Error (''URI '' @ href uri @ '' is not under rootUri '' @ href httpRootUri))
         else Inr fileUri)"

definition mapFileToHttpUrlSimple :: "url \<Rightarrow> url \<Rightarrow> url \<Rightarrow> js_error + url" where
  "mapFileToHttpUrlSimple httpRootUri fileRootUri uri =
     (let relativePath = relativeUrl fileRootUri uri
      in if str_includes (relative_text relativePath) ''node_modules/''
         then Inl (Error (''Cannot map URI '' @ href uri @
                          '' to HTTP URL because it is in node_modules''))
         else
           let httpUri = new_URL_rel relativePath httpRootUri
           in if \<not> startsWith (href httpUri) (href httpRootUri)
              then Inl (Error (''URI '' @ href httpUri @ '' is not under rootUri '' @
                               href httpRootUri))
              else Inr httpUri)"

text \<open>
  The roots of the spec's first scenario: \<^verbatim>\<open>https://h/repo@abc/-/raw/\<close> and the
  extraction directory \<^verbatim>\<open>file:///tmp/c/repo/\<close> of a connection \<^verbatim>\<open>c\<close>, whose temporary
  directory is \<^verbatim>\<open>file:///tmp/c/\<close>.
\<close>

definition example_httpRoot :: url where
  "example_httpRoot =
     \<lparr>protocol = ''https:'', host = ''h'', segments = [''repo@abc'', ''-'', ''raw'', '''']\<rparr>"

definition example_fileRoot :: url where
  "example_fileRoot = \<lparr>protocol = ''file:'', host = '''', segments = [''tmp'', ''c'', ''repo'', '''']\<rparr>"

definition example_tempDir :: url where
  "example_tempDir = \<lparr>protocol = ''file:'', host = '''', segments = [''tmp'', ''c'', '''']\<rparr>"

section \<open>The state of a connection\<close>

text \<open>
  Modelled from the spec: \<^verbatim>\<open>URLMap\<close> and \<^verbatim>\<open>URLSet\<close> of uri.ts are not among the sources.
  A \<^verbatim>\<open>URLMap\<close> is a JavaScript \<^verbatim>\<open>Map\<close> keyed by the href of the URL: it iterates in
  insertion order, and \<^verbatim>\<open>set\<close> on a key that is present replaces the value where it
  stands. A \<^verbatim>\<open>URLSet\<close> is the set of hrefs.
\<close>

type_synonym 'v URLMap = "(string \<times> 'v) list"

fun URLMap_get :: "'v URLMap \<Rightarrow> url \<Rightarrow> 'v option" where
  "URLMap_get m u = map_of m (href u)"

fun URLMap_has :: "'v URLMap \<Rightarrow> url \<Rightarrow> bool" where
  "URLMap_has m u = (map_of m (href u) \<noteq> None)"

fun Map_set :: "(string \<times> 'v) list \<Rightarrow> string \<Rightarrow> 'v \<Rightarrow> (string \<times> 'v) list" where
  "Map_set [] k v = [(k, v)]"
| "Map_set ((k', v') # m) k v = (if k' = k then (k, v) # m else (k', v') # Map_set m k v)"

definition URLMap_set :: "'v URLMap \<Rightarrow> url \<Rightarrow> 'v \<Rightarrow> 'v URLMap" where
  "URLMap_set m u v = Map_set m (href u) v"

definition URLMap_values :: "'v URLMap \<Rightarrow> 'v list" where
  "URLMap_values m = map snd m"

text \<open>
  The \<^verbatim>\<open>textDocument\<close> of \<^verbatim>\<open>DidOpenTextDocumentParams\<close>, the parameters of
  \<^verbatim>\<open>textDocument/publishDiagnostics\<close> (the diagnostics themselves are a payload that
  the server never inspects), and the initialize parameters that the downstream
  language server gets: the client's, with \<^verbatim>\<open>rootPath\<close> and \<^verbatim>\<open>rootUri\<close> replaced.
\<close>

record textDocumentItem =
  uri :: string
  languageId :: string
  version :: int
  content :: string

record publishDiagnosticsParams =
  diagnostics_uri :: string
  diagnostics :: string

record initializeParams =
  client_params :: string
  rootPath :: string
  rootUri :: string

text \<open>The messages that the downstream language server and the client receive.\<close>

datatype server_message =
    InitializeRequest initializeParams
  | DidOpenTextDocumentNotification textDocumentItem
  | ServerRequest string string

datatype client_message =
    PublishDiagnosticsNotification publishDiagnosticsParams

record languageServer =
  received :: "server_message list"
  disposed :: bool

text \<open>
  The settings that server.ts reads. An absent key is \<open>None\<close>;
  \<^verbatim>\<open>typescript.restartAfterDependencyInstallation\<close> counts unless it is \<^verbatim>\<open>false\<close>,
  \<^verbatim>\<open>typescript.diagnostics.enable\<close> counts when it is \<^verbatim>\<open>true\<close>.
\<close>

record settings =
  diagnostics_enable :: "bool option"
  restartAfterDependencyInstallation :: "bool option"
  sourcegraphUrl :: "string option"
  accessToken :: "string option"

text \<open>
  Files of the temporary directory, by path. A \<^verbatim>\<open>package.json\<close> holds the three
  dependency tables that \<^verbatim>\<open>filterDependencies\<close> reads, in the order of
  \<^verbatim>\<open>Object.entries\<close>, and the fields that \<^verbatim>\<open>mapFileLocation\<close> reads: the
  \<^verbatim>\<open>repository\<close> is a string, or an object with \<^verbatim>\<open>type\<close>, \<^verbatim>\<open>url\<close> and an optional
  \<^verbatim>\<open>directory\<close>. Any other JSON file holds a JSON value; \<open>TextFile\<close> is a file that
  does not parse.
\<close>

datatype json =
    JNull | JBool bool | JNumber int | JString string
  | JArray "json list" | JObject "(string \<times> json) list"

datatype repository =
    RepositoryString string
  | RepositoryObject string string "string option"

record packageJson =
  name :: string
  pkg_version :: string
  repository :: "repository option"
  dependencies :: "(string \<times> string) list option"
  devDependencies :: "(string \<times> string) list option"
  optionalDependencies :: "(string \<times> string) list option"

datatype file_content = PackageJsonFile packageJson | JsonFile json | TextFile string

type_synonym fs = "(string \<times> file_content) list"

text \<open>
  What the server does that a claim counts: calls of the installer, writes to disk,
  the lines of the error log.
\<close>

datatype effect =
    InstallDependenciesForPackage string
  | YarnInstall string
  | WriteFile string
  | LoggerError string js_error
  | LoggerWarn string
  | LoggerLog string

datatype promise = Pending | Fulfilled | Rejected js_error

record session =
  httpRootUri :: url
  fileRootUri :: url
  tempDirUri :: url
  configuration :: settings
  serverInitializeParams :: initializeParams
  languageServer :: "languageServer option"
  retired :: "languageServer list"
  openTextDocuments :: "textDocumentItem URLMap"
  packageRootUris :: "url list"
  dependencyInstallationPromises :: "nat URLMap"
  promises :: "promise list"
  finishedDependencyInstallations :: "string set"
  files :: fs
  client :: "client_message list"
  trace :: "effect list"

text \<open>
  What lies outside the server during one operation: whether the language server
  spawns, the answer to the initialize request, the registry metadata that
  \<^verbatim>\<open>hasTypes\<close> fetches (whether the package has a \<^verbatim>\<open>types\<close> or \<^verbatim>\<open>typings\<close> field, or
  the failure of the fetch), the outcome of \<^verbatim>\<open>mkdirp\<close> and of the installer with the
  files it adds, and what \<^verbatim>\<open>token.isCancellationRequested\<close> holds at each place that
  reads it.
\<close>

record world =
  spawnLanguageServer_error :: "js_error option"
  initialize_response :: "js_error + string"
  registry_types :: "string \<Rightarrow> string \<Rightarrow> js_error + bool"
  mkdirp_error :: "js_error option"
  install_error :: "js_error option"
  install_files :: fs
  cancelled_in_filter :: bool
  cancelled_in_sanitize :: bool
  cancelled_in_catch :: bool

definition log_error :: "string \<Rightarrow> js_error \<Rightarrow> session \<Rightarrow> session" where
  "log_error message err s = s\<lparr>trace := trace s @ [LoggerError message err]\<rparr>"

text \<open>
  Modelled from the spec: language-server.ts is not among the sources. The handle of
  the downstream language server records what the server receives; disposing it
  releases its resources, and sending on a disposed connection throws.
  \<open>send_to_server\<close> is \<^verbatim>\<open>languageServer.connection.sendNotification\<close> and the
  sending half of \<^verbatim>\<open>sendRequest\<close>: before the first spawn \<^verbatim>\<open>languageServer\<close> is
  undefined and the property access throws.
\<close>

definition sendNotification :: "server_message \<Rightarrow> languageServer \<Rightarrow> languageServer" where
  "sendNotification msg ls = ls\<lparr>received := received ls @ [msg]\<rparr>"

definition send_to_server :: "server_message \<Rightarrow> session \<Rightarrow> js_error + session" where
  "send_to_server msg s =
     (case languageServer s of
        None \<Rightarrow> Inl (TypeError ''languageServer is undefined'')
      | Some ls \<Rightarrow>
          if disposed ls then Inl (Error ''Connection is disposed'')
          else Inr (s\<lparr>languageServer := Some (sendNotification msg ls)\<rparr>))"

section \<open>Diagnostics, open documents and the restart of the language server\<close>

text \<open>
  The observer of \<^verbatim>\<open>PublishDiagnosticsNotification\<close> that \<^verbatim>\<open>restartLanguageServer\<close>
  subscribes: the whole body is in a \<^verbatim>\<open>try\<close> whose \<^verbatim>\<open>catch\<close> logs.
\<close>

definition forwardDiagnostics :: "publishDiagnosticsParams \<Rightarrow> session \<Rightarrow> session" where
  "forwardDiagnostics params s =
     (if str_includes (diagnostics_uri params) ''/node_modules/'' then s
      else case new_URL (diagnostics_uri params) of
        Inl err \<Rightarrow> log_error ''Error handling textDocument/publishDiagnostics notification'' err s
      | Inr fileUri \<Rightarrow>
          (case mapFileToHttpUrlSimple (httpRootUri s) (fileRootUri s) fileUri of
             Inl err \<Rightarrow>
               log_error ''Error handling textDocument/publishDiagnostics notification'' err s
           | Inr httpUri \<Rightarrow>
               s\<lparr>client := client s @
                    [PublishDiagnosticsNotification
                       (params\<lparr>diagnostics_uri := href httpUri\<rparr>)]\<rparr>))"

text \<open>
  A publish-diagnostics notification arrives from the downstream server: the observer
  exists only when \<^verbatim>\<open>typescript.diagnostics.enable\<close> is set.
\<close>

definition onPublishDiagnostics :: "publishDiagnosticsParams \<Rightarrow> session \<Rightarrow> session" where
  "onPublishDiagnostics params s =
     (if diagnostics_enable (configuration s) = Some True then forwardDiagnostics params s
      else s)"

text \<open>
  \<^verbatim>\<open>restartLanguageServer\<close>: the old server is disposed, a new one is spawned, it gets
  the initialize request with the saved parameters, and when the answer has come every
  value of \<^verbatim>\<open>openTextDocuments\<close> is sent as a \<^verbatim>\<open>didOpen\<close> notification. A failed spawn
  or a failed initialize request rejects the promise before the replay.
\<close>

definition dispose_languageServer :: "session \<Rightarrow> session" where
  "dispose_languageServer s =
     (case languageServer s of
        None \<Rightarrow> s
      | Some old \<Rightarrow> s\<lparr>languageServer := Some (old\<lparr>disposed := True\<rparr>)\<rparr>)"

definition assign_languageServer :: "languageServer \<Rightarrow> session \<Rightarrow> session" where
  "assign_languageServer spawned s =
     s\<lparr>retired := retired s @ (case languageServer s of None \<Rightarrow> [] | Some old \<Rightarrow> [old]),
       languageServer := Some spawned\<rparr>"

definition replay :: "textDocumentItem list \<Rightarrow> languageServer \<Rightarrow> languageServer" where
  "replay documents ls =
     fold (\<lambda>didOpenParams. sendNotification (DidOpenTextDocumentNotification didOpenParams))
       documents ls"

definition restartLanguageServer :: "world \<Rightarrow> session \<Rightarrow> (js_error + string) \<times> session" where
  "restartLanguageServer w s =
     (let s1 = dispose_languageServer s
      in case spawnLanguageServer_error w of
           Some err \<Rightarrow> (Inl err, s1)
         | None \<Rightarrow>
             let spawned = \<lparr>received = [], disposed = False\<rparr>;
                 s2 = assign_languageServer
                        (sendNotification (InitializeRequest (serverInitializeParams s1)) spawned)
                        s1
             in (case initialize_response w of
                   Inl err \<Rightarrow> (Inl err, s2)
                 | Inr initializeResult \<Rightarrow>
                     (Inr initializeResult,
                      s2\<lparr>languageServer :=
                           map_option (replay (URLMap_values (openTextDocuments s2)))
                             (languageServer s2)\<rparr>)))"

text \<open>
  \<^verbatim>\<open>openTextDocument(fileUri)\<close>: nothing for a URI that is in the map; otherwise the
  text is fetched (\<open>fetched\<close> is the outcome), the notification is sent and the
  parameters are stored.
\<close>

definition openTextDocument ::
  "url \<Rightarrow> js_error + string \<Rightarrow> session \<Rightarrow> (js_error + unit) \<times> session" where
  "openTextDocument fileUri fetched s =
     (if URLMap_has (openTextDocuments s) fileUri then (Inr (), s)
      else case fetched of
        Inl err \<Rightarrow> (Inl err, s)
      | Inr txt \<Rightarrow>
          let didOpenParams =
                \<lparr>uri = href fileUri, languageId = ''typescript'', version = 1, content = txt\<rparr>
          in (case send_to_server (DidOpenTextDocumentNotification didOpenParams) s of
                Inl err \<Rightarrow> (Inl err, s)
              | Inr s1 \<Rightarrow>
                  (Inr (),
                   s1\<lparr>openTextDocuments :=
                        URLMap_set (openTextDocuments s1) fileUri didOpenParams\<rparr>)))"

text \<open>
  The observer of the client's \<^verbatim>\<open>textDocument/didOpen\<close>: the URI is mapped to the file
  URI, the notification is forwarded and stored; any error is logged.
\<close>

definition onDidOpenTextDocument :: "textDocumentItem \<Rightarrow> session \<Rightarrow> session" where
  "onDidOpenTextDocument textDocument s =
     (case new_URL (uri textDocument) of
        Inl err \<Rightarrow> log_error ''Error handling textDocument/didOpen notification'' err s
      | Inr u \<Rightarrow>
          (case mapHttpToFileUrlSimple (httpRootUri s) (fileRootUri s) u of
             Inl err \<Rightarrow> log_error ''Error handling textDocument/didOpen notification'' err s
           | Inr fileUri \<Rightarrow>
               let mappedParams = textDocument\<lparr>uri := href fileUri\<rparr>
               in (case send_to_server (DidOpenTextDocumentNotification mappedParams) s of
                     Inl err \<Rightarrow>
                       log_error ''Error handling textDocument/didOpen notification'' err s
                   | Inr s1 \<Rightarrow>
                       s1\<lparr>openTextDocuments :=
                            URLMap_set (openTextDocuments s1) fileUri mappedParams\<rparr>)))"

section \<open>Files, paths and lazy sequences\<close>

text \<open>
  \<^verbatim>\<open>path.join\<close> on absolute POSIX paths: the non-empty parts are joined with a
  slash and the result is normalised, keeping a trailing slash. \<^verbatim>\<open>pathToFileURL\<close> and
  \<^verbatim>\<open>fileURLToPath\<close> convert between a path and its \<^verbatim>\<open>file:\<close> URL.
\<close>

definition path_join :: "string list \<Rightarrow> string" where
  "path_join parts =
     (let joined = join_slash (filter (\<lambda>part. part \<noteq> []) parts);
          segs = filter (\<lambda>seg. seg \<noteq> []) (path_state [] (split_slash joined))
      in (if startsWith joined ''/'' then ''/'' else []) @ join_slash segs @
         (if joined \<noteq> [] \<and> last joined = CHR ''/'' \<and> segs \<noteq> [] then ''/'' else []))"

definition pathToFileURL :: "string \<Rightarrow> url" where
  "pathToFileURL p = \<lparr>protocol = ''file:'', host = [], segments = split_slash (tl p)\<rparr>"

definition fileURLToPath :: "url \<Rightarrow> string" where
  "fileURLToPath u = pathname u"

text \<open>\<^verbatim>\<open>extractPath\<close>, the directory whose URL with a trailing slash is \<^verbatim>\<open>fileRootUri\<close>.\<close>

definition extractPath :: "session \<Rightarrow> string" where
  "extractPath s = CHR ''/'' # join_slash (butlast (segments (fileRootUri s)))"

definition readFile :: "fs \<Rightarrow> string \<Rightarrow> js_error + file_content" where
  "readFile fs p = (case map_of fs p of None \<Rightarrow> Inl ResourceNotFoundError | Some f \<Rightarrow> Inr f)"

definition writeFile :: "string \<Rightarrow> file_content \<Rightarrow> session \<Rightarrow> session" where
  "writeFile p f s = s\<lparr>files := Map_set (files s) p f, trace := trace s @ [WriteFile p]\<rparr>"

text \<open>
  Modelled from the spec: ix.ts (\<^verbatim>\<open>flatMapConcurrent\<close>) and resources.ts (the resource
  retrievers and their \<^verbatim>\<open>glob\<close>) are not among the sources. The spec has \<^verbatim>\<open>glob\<close>
  return a lazy sequence of URIs and the fan-out tasks use a bounded-concurrency
  combinator of width 10; server.ts consumes the result of \<^verbatim>\<open>flatMapConcurrent\<close> with
  \<^verbatim>\<open>toArray()\<close> or \<^verbatim>\<open>first()\<close>. A lazy asynchronous sequence is the computation that
  runs when the sequence is consumed: until then it has done nothing. The selector
  runs on one element after the other; the width does not change what is computed.
\<close>

datatype 'a AsyncIterableX = AsyncIterableX "session \<Rightarrow> (js_error + 'a list) \<times> session"

fun toArray :: "'a AsyncIterableX \<Rightarrow> session \<Rightarrow> (js_error + 'a list) \<times> session" where
  "toArray (AsyncIterableX consume) s = consume s"

fun flat_map_each ::
  "('a \<Rightarrow> 'b AsyncIterableX) \<Rightarrow> 'a list \<Rightarrow> session \<Rightarrow> (js_error + 'b list) \<times> session" where
  "flat_map_each selector [] s = (Inr [], s)"
| "flat_map_each selector (x # xs) s =
     (case toArray (selector x) s of
        (Inl err, s1) \<Rightarrow> (Inl err, s1)
      | (Inr ys, s1) \<Rightarrow>
          (case flat_map_each selector xs s1 of
             (Inl err, s2) \<Rightarrow> (Inl err, s2)
           | (Inr zs, s2) \<Rightarrow> (Inr (ys @ zs), s2)))"

definition flatMapConcurrent ::
  "'a AsyncIterableX \<Rightarrow> nat \<Rightarrow> ('a \<Rightarrow> 'b AsyncIterableX) \<Rightarrow> 'b AsyncIterableX" where
  "flatMapConcurrent source concurrency selector =
     AsyncIterableX (\<lambda>s. case toArray source s of
                             (Inl err, s1) \<Rightarrow> (Inl err, s1)
                           | (Inr xs, s1) \<Rightarrow> flat_map_each selector xs s1)"

text \<open>
  A glob pattern of literal segments and \<^verbatim>\<open>**\<close>, which stands for any number of
  directories; \<^verbatim>\<open>glob\<close> yields the files of the file system that match.
\<close>

fun glob_match :: "string list \<Rightarrow> string list \<Rightarrow> bool" where
  "glob_match [] [] = True"
| "glob_match [] (seg # segs) = False"
| "glob_match (p # ps) [] = (p = ''**'' \<and> glob_match ps [])"
| "glob_match (p # ps) (seg # segs) =
     (if p = ''**'' then glob_match ps (seg # segs) \<or> glob_match (p # ps) segs
      else p = seg \<and> glob_match ps segs)"

definition glob :: "url \<Rightarrow> url AsyncIterableX" where
  "glob pattern =
     AsyncIterableX (\<lambda>s.
       (Inr (map pathToFileURL
               (filter (\<lambda>p. glob_match (segments pattern) (split_slash (tl p)))
                  (map fst (files s)))), s))"

section \<open>Sanitizing tsconfig.json files (tsconfig.ts)\<close>

text \<open>
  Property access and truthiness on a parsed JSON value; \<open>without_plugins\<close> is the
  object after \<^verbatim>\<open>tsconfig.compilerOptions.plugins = undefined\<close> as
  \<^verbatim>\<open>JSON.stringify\<close> writes it, without the key.
\<close>

fun json_get :: "json \<Rightarrow> string \<Rightarrow> json option" where
  "json_get (JObject members) k = map_of members k"
| "json_get _ k = None"

fun truthy :: "json option \<Rightarrow> bool" where
  "truthy None = False"
| "truthy (Some JNull) = False"
| "truthy (Some (JBool b)) = b"
| "truthy (Some (JNumber n)) = (n \<noteq> 0)"
| "truthy (Some (JString t)) = (t \<noteq> [])"
| "truthy (Some (JArray xs)) = True"
| "truthy (Some (JObject members)) = True"

fun without_plugins :: "json \<Rightarrow> json" where
  "without_plugins (JObject members) =
     JObject (map (\<lambda>(k, v). if k = ''compilerOptions''
                              then (case v of
                                      JObject options \<Rightarrow>
                                        (k, JObject (filter (\<lambda>(k', v'). k' \<noteq> ''plugins'') options))
                                    | _ \<Rightarrow> (k, v))
                              else (k, v)) members)"
| "without_plugins j = j"

definition has_plugins :: "json \<Rightarrow> bool" where
  "has_plugins tsconfig =
     (truthy (Some tsconfig) \<and> truthy (json_get tsconfig ''compilerOptions'') \<and>
      (case json_get tsconfig ''compilerOptions'' of
         None \<Rightarrow> False
       | Some options \<Rightarrow> truthy (json_get options ''plugins'')))"

text \<open>
  The generator that \<^verbatim>\<open>sanitizeTsConfigs\<close> hands to \<^verbatim>\<open>flatMapConcurrent\<close>, for one
  \<^verbatim>\<open>tsconfig.json\<close>: it yields nothing; a failure to read or parse is logged.
\<close>

definition sanitizeTsConfig :: "bool \<Rightarrow> url \<Rightarrow> unit AsyncIterableX" where
  "sanitizeTsConfig cancelled tsconfigUri =
     AsyncIterableX (\<lambda>s.
       case throwIfCancelled cancelled of
         Inl err \<Rightarrow> (Inl err, s)
       | Inr _ \<Rightarrow>
           (case readFile (files s) (fileURLToPath tsconfigUri) of
              Inl err \<Rightarrow> (Inr [], log_error ''Error sanitizing tsconfig.json'' err s)
            | Inr (JsonFile tsconfig) \<Rightarrow>
                (if has_plugins tsconfig
                 then (Inr [], writeFile (fileURLToPath tsconfigUri)
                                 (JsonFile (without_plugins tsconfig)) s)
                 else (Inr [], s))
            | Inr _ \<Rightarrow>
                (Inr [], log_error ''Error sanitizing tsconfig.json''
                           (Error ''JSON5: invalid character'') s)))"

text \<open>
  \<^verbatim>\<open>sanitizeTsConfigs\<close>: after the cancellation check the sequence is built from the
  glob of \<^verbatim>\<open>**/tsconfig.json\<close> against \<^verbatim>\<open>dir\<close>, and that is all: the source neither
  awaits nor consumes what \<^verbatim>\<open>flatMapConcurrent\<close> returns.
\<close>

definition sanitizeTsConfigs :: "url \<Rightarrow> bool \<Rightarrow> session \<Rightarrow> (js_error + unit) \<times> session" where
  "sanitizeTsConfigs dir cancelled s =
     (case throwIfCancelled cancelled of
        Inl err \<Rightarrow> (Inl err, s)
      | Inr _ \<Rightarrow>
          let pattern = new_URL_rel (PathRef [''**'', ''tsconfig.json'']) dir;
              unconsumed = flatMapConcurrent (glob pattern) 10 (sanitizeTsConfig cancelled)
          in (Inr (), s))"

section \<open>Filtering and installing dependencies (dependencies.ts, server.ts)\<close>

text \<open>
  What \<^verbatim>\<open>filterDependencies\<close> finds for one entry of a dependency table: a name that
  starts with \<^verbatim>\<open>@types/\<close> is kept without a lookup; otherwise \<^verbatim>\<open>hasTypes\<close> decides,
  and when it throws the error is logged and the entry counts as neither included nor
  excluded.
\<close>

datatype verdict = Included | Excluded | Failed js_error

definition inspect_dependency :: "world \<Rightarrow> string \<times> string \<Rightarrow> verdict" where
  "inspect_dependency w entry =
     (case entry of (dep, semver) \<Rightarrow>
        if startsWith dep ''@types/'' then Included
        else case registry_types w dep semver of
               Inl err \<Rightarrow> Failed err
             | Inr True \<Rightarrow> Included
             | Inr False \<Rightarrow> Excluded)"

definition entries :: "(string \<times> string) list option \<Rightarrow> (string \<times> string) list" where
  "entries table = (case table of None \<Rightarrow> [] | Some deps \<Rightarrow> deps)"

definition all_entries :: "packageJson \<Rightarrow> (string \<times> string) list" where
  "all_entries pkg =
     entries (dependencies pkg) @ entries (devDependencies pkg) @
     entries (optionalDependencies pkg)"

definition included :: "world \<Rightarrow> packageJson \<Rightarrow> string list" where
  "included w pkg =
     map fst (filter (\<lambda>entry. inspect_dependency w entry = Included) (all_entries pkg))"

definition excluded :: "world \<Rightarrow> packageJson \<Rightarrow> string list" where
  "excluded w pkg =
     map fst (filter (\<lambda>entry. inspect_dependency w entry = Excluded) (all_entries pkg))"

definition inspection_errors :: "world \<Rightarrow> packageJson \<Rightarrow> effect list" where
  "inspection_errors w pkg =
     concat (map (\<lambda>entry. case inspect_dependency w entry of
                             Failed err \<Rightarrow> [LoggerError (''Error inspecting dependency '' @ fst entry) err]
                           | _ \<Rightarrow> [])
               (all_entries pkg))"

definition keep_table ::
  "world \<Rightarrow> (string \<times> string) list option \<Rightarrow> (string \<times> string) list option" where
  "keep_table w table =
     map_option (filter (\<lambda>entry. inspect_dependency w entry \<noteq> Excluded)) table"

definition filtered :: "world \<Rightarrow> packageJson \<Rightarrow> packageJson" where
  "filtered w pkg =
     pkg\<lparr>dependencies := keep_table w (dependencies pkg),
         devDependencies := keep_table w (devDependencies pkg),
         optionalDependencies := keep_table w (optionalDependencies pkg)\<rparr>"

text \<open>
  \<^verbatim>\<open>filterDependencies(packageJsonPath)\<close>. Every entry checks the token before its
  first suspension, so all checks read the same value and one cancelled check rejects
  the whole call before any lookup. The file is written when both lists are non-empty;
  the result is whether anything is included.
\<close>

definition filterDependencies ::
  "world \<Rightarrow> string \<Rightarrow> session \<Rightarrow> (js_error + bool) \<times> session" where
  "filterDependencies w packageJsonPath s =
     (case readFile (files s) packageJsonPath of
        Inl err \<Rightarrow> (Inl err, s)
      | Inr (PackageJsonFile pkg) \<Rightarrow>
          if all_entries pkg \<noteq> [] \<and> cancelled_in_filter w then (Inl AbortError, s)
          else
            let s1 = s\<lparr>trace := trace s @ inspection_errors w pkg\<rparr>;
                s2 = (if included w pkg \<noteq> [] \<and> excluded w pkg \<noteq> []
                      then writeFile packageJsonPath (PackageJsonFile (filtered w pkg)) s1
                      else s1)
            in (Inr (included w pkg \<noteq> []), s2)
      | Inr _ \<Rightarrow> (Inl (Error ''Unexpected token in JSON''), s))"

text \<open>
  Modelled from the spec: yarn.ts (\<^verbatim>\<open>install\<close>) is not among the sources. The installer
  is an external collaborator that runs in \<^verbatim>\<open>cwd\<close>; it fails, or adds files under
  \<^verbatim>\<open>node_modules\<close>.
\<close>

definition install :: "world \<Rightarrow> string \<Rightarrow> session \<Rightarrow> (js_error + unit) \<times> session" where
  "install w cwd s =
     (let s1 = s\<lparr>trace := trace s @ [YarnInstall cwd]\<rparr>
      in case install_error w of
           Some err \<Rightarrow> (Inl err, s1)
         | None \<Rightarrow> (Inr (), s1\<lparr>files := files s1 @ install_files w\<rparr>))"

text \<open>The \<^verbatim>\<open>try\<close> block of \<^verbatim>\<open>installDependenciesForPackage\<close>.\<close>

definition installation_steps ::
  "world \<Rightarrow> string \<Rightarrow> session \<Rightarrow> (js_error + unit) \<times> session" where
  "installation_steps w relPackageRoot s =
     (let absPackageJsonPath = path_join [extractPath s, relPackageRoot, ''package.json'']
      in case filterDependencies w absPackageJsonPath s of
           (Inl err, s1) \<Rightarrow> (Inl err, s1)
         | (Inr hasDeps, s1) \<Rightarrow>
             if \<not> hasDeps then (Inr (), s1)
             else
               let cwd = path_join [extractPath s1, relPackageRoot]
               in (case mkdirp_error w of
                     Some err \<Rightarrow> (Inl err, s1)
                   | None \<Rightarrow>
                       (case install w cwd s1 of
                          (Inl err, s2) \<Rightarrow> (Inl err, s2)
                        | (Inr _, s2) \<Rightarrow>
                            (case sanitizeTsConfigs
                                    (pathToFileURL (path_join [cwd, ''node_modules'']))
                                    (cancelled_in_sanitize w) s2 of
                               (Inl err, s3) \<Rightarrow> (Inl err, s3)
                             | (Inr _, s3) \<Rightarrow>
                                 if restartAfterDependencyInstallation (configuration s3) \<noteq>
                                    Some False
                                 then (case restartLanguageServer w s3 of
                                         (Inl err, s4) \<Rightarrow> (Inl err, s4)
                                       | (Inr _, s4) \<Rightarrow> (Inr (), s4))
                                 else (Inr (), s3)))))"

text \<open>
  \<^verbatim>\<open>installDependenciesForPackage\<close>: the \<^verbatim>\<open>catch\<close> checks the token, then logs; the
  \<^verbatim>\<open>finally\<close> marks the package root as finished.
\<close>

definition installDependenciesForPackage ::
  "world \<Rightarrow> url \<Rightarrow> session \<Rightarrow> (js_error + unit) \<times> session" where
  "installDependenciesForPackage w packageRootUri s =
     (let relPackageRoot = relative_text (relativeUrl (httpRootUri s) packageRootUri)
      in case (case installation_steps w relPackageRoot s of
                 (Inl err, s1) \<Rightarrow>
                   (case throwIfCancelled (cancelled_in_catch w) of
                      Inl abort \<Rightarrow> (Inl abort, s1)
                    | Inr _ \<Rightarrow> (Inr (), log_error ''Installation failed'' err s1))
               | (Inr _, s1) \<Rightarrow> (Inr (), s1)) of
           (outcome, s2) \<Rightarrow>
             (outcome,
              s2\<lparr>finishedDependencyInstallations :=
                   insert (href packageRootUri) (finishedDependencyInstallations s2)\<rparr>))"

text \<open>
  \<^verbatim>\<open>ensureDependenciesForPackageRoot\<close>, up to its \<^verbatim>\<open>await\<close>: the promise of the package
  root is looked up; when there is none, \<^verbatim>\<open>installDependenciesForPackage\<close> is called
  and its promise, pending, is stored. The result is the promise that the caller
  awaits. The installation itself runs when the promise settles.
\<close>

definition ensureDependenciesForPackageRoot :: "url \<Rightarrow> session \<Rightarrow> nat \<times> session" where
  "ensureDependenciesForPackageRoot packageRootUri s =
     (case URLMap_get (dependencyInstallationPromises s) packageRootUri of
        Some installationPromise \<Rightarrow> (installationPromise, s)
      | None \<Rightarrow>
          let installationPromise = length (promises s)
          in (installationPromise,
              s\<lparr>promises := promises s @ [Pending],
                trace := trace s @ [InstallDependenciesForPackage (href packageRootUri)],
                dependencyInstallationPromises :=
                  URLMap_set (dependencyInstallationPromises s) packageRootUri
                    installationPromise\<rparr>))"

definition settle :: "world \<Rightarrow> url \<Rightarrow> session \<Rightarrow> session" where
  "settle w packageRootUri s =
     (case URLMap_get (dependencyInstallationPromises s) packageRootUri of
        None \<Rightarrow> s
      | Some installationPromise \<Rightarrow>
          if installationPromise < length (promises s) \<and>
             promises s ! installationPromise = Pending
          then case installDependenciesForPackage w packageRootUri s of
                 (outcome, s1) \<Rightarrow>
                   s1\<lparr>promises :=
                        (promises s1)[installationPromise :=
                           (case outcome of Inl err \<Rightarrow> Rejected err | Inr _ \<Rightarrow> Fulfilled)]\<rparr>
          else s)"

text \<open>
  \<^verbatim>\<open>findParentPackageRoots\<close> and \<^verbatim>\<open>ensureDependenciesForDocument\<close>: every package root
  whose href is a prefix of the document's href is ensured; the result is the promises
  awaited.
\<close>

definition findParentPackageRoots :: "session \<Rightarrow> url \<Rightarrow> url list" where
  "findParentPackageRoots s textDocumentUri =
     filter (\<lambda>packageRoot. startsWith (href textDocumentUri) (href packageRoot))
       (packageRootUris s)"

fun ensure_all :: "url list \<Rightarrow> session \<Rightarrow> nat list \<times> session" where
  "ensure_all [] s = ([], s)"
| "ensure_all (packageRoot # rest) s =
     (case ensureDependenciesForPackageRoot packageRoot s of
        (p, s1) \<Rightarrow> (case ensure_all rest s1 of (ps, s2) \<Rightarrow> (p # ps, s2)))"

definition ensureDependenciesForDocument ::
  "url \<Rightarrow> bool \<Rightarrow> session \<Rightarrow> (js_error + nat list) \<times> session" where
  "ensureDependenciesForDocument textDocumentUri cancelled s =
     (case throwIfCancelled cancelled of
        Inl err \<Rightarrow> (Inl err, s)
      | Inr _ \<Rightarrow>
          (case ensure_all (findParentPackageRoots s textDocumentUri) s of
             (ps, s1) \<Rightarrow> (Inr ps, s1)))"

section \<open>A connection as a sequence of events\<close>

text \<open>
  The handlers of a connection run one at a time and interleave only where they
  await. An event is one such uninterrupted piece: a client notification, a call of
  \<^verbatim>\<open>openTextDocument\<close> with the outcome of its fetch, a restart, a diagnostics
  notification from the language server, a request forwarded to it, a call that
  ensures dependencies, and the settling of an installation promise.
\<close>

datatype event =
    ClientDidOpen textDocumentItem
  | OpenTextDocument url "js_error + string"
  | RestartLanguageServer world
  | PublishDiagnostics publishDiagnosticsParams
  | SendServerRequest string string
  | EnsureDependenciesForPackageRoot url
  | EnsureDependenciesForDocument url bool
  | InstallationSettles world url

fun step :: "event \<Rightarrow> session \<Rightarrow> session" where
  "step (ClientDidOpen textDocument) s = onDidOpenTextDocument textDocument s"
| "step (OpenTextDocument fileUri fetched) s = snd (openTextDocument fileUri fetched s)"
| "step (RestartLanguageServer w) s = snd (restartLanguageServer w s)"
| "step (PublishDiagnostics params) s = onPublishDiagnostics params s"
| "step (SendServerRequest method params) s =
     (case send_to_server (ServerRequest method params) s of Inl err \<Rightarrow> s | Inr s1 \<Rightarrow> s1)"
| "step (EnsureDependenciesForPackageRoot packageRootUri) s =
     snd (ensureDependenciesForPackageRoot packageRootUri s)"
| "step (EnsureDependenciesForDocument textDocumentUri cancelled) s =
     snd (ensureDependenciesForDocument textDocumentUri cancelled s)"
| "step (InstallationSettles w packageRootUri) s = settle w packageRootUri s"

definition run :: "event list \<Rightarrow> session \<Rightarrow> session" where
  "run events s = fold step events s"

text \<open>
  The connection when the initialize handler has set the roots, the configuration and
  the package roots, before it spawns the language server.
\<close>

definition initialized ::
  "url \<Rightarrow> url \<Rightarrow> url \<Rightarrow> settings \<Rightarrow> initializeParams \<Rightarrow> url list \<Rightarrow> fs \<Rightarrow> session" where
  "initialized httpRoot fileRoot tempDir config params packageRoots extracted =
     \<lparr>httpRootUri = httpRoot, fileRootUri = fileRoot, tempDirUri = tempDir,
      configuration = config, serverInitializeParams = params,
      languageServer = None, retired = [], openTextDocuments = [],
      packageRootUris = packageRoots, dependencyInstallationPromises = [],
      promises = [], finishedDependencyInstallations = {},
      files = extracted, client = [], trace = []\<rparr>"

section \<open>What the claims observe\<close>

text \<open>
  The paths written, the working directories of the installer runs, the package roots
  that \<^verbatim>\<open>installDependenciesForPackage\<close> was called for, in the order of the trace.
\<close>

fun written :: "effect list \<Rightarrow> string list" where
  "written [] = []"
| "written (WriteFile p # es) = p # written es"
| "written (e # es) = written es"

fun installer_runs :: "effect list \<Rightarrow> string list" where
  "installer_runs [] = []"
| "installer_runs (YarnInstall cwd # es) = cwd # installer_runs es"
| "installer_runs (e # es) = installer_runs es"

fun installer_calls :: "effect list \<Rightarrow> string list" where
  "installer_calls [] = []"
| "installer_calls (InstallDependenciesForPackage packageRoot # es) =
     packageRoot # installer_calls es"
| "installer_calls (e # es) = installer_calls es"

text \<open>
  Everything that the language servers of the connection have received, the retired
  ones first, and the parameters of the last \<^verbatim>\<open>didOpen\<close> notification for a URI in a
  list of messages.
\<close>

definition history :: "session \<Rightarrow> server_message list" where
  "history s =
     concat (map received (retired s)) @
     (case languageServer s of None \<Rightarrow> [] | Some ls \<Rightarrow> received ls)"


text \<open>The path of the \<^verbatim>\<open>package.json\<close> that \<^verbatim>\<open>installDependenciesForPackage\<close> filters.\<close>

definition absPackageJsonPath :: "session \<Rightarrow> url \<Rightarrow> string" where
  "absPackageJsonPath s packageRootUri =
     path_join [extractPath s, relative_text (relativeUrl (httpRootUri s) packageRootUri),
                ''package.json'']"


text \<open>
  The invariant of the installations: the calls of \<^verbatim>\<open>installDependenciesForPackage\<close>
  so far are the keys of the map of installation promises, in the order of insertion,
  and no key is there twice.
\<close>

definition single_flight :: "session \<Rightarrow> bool" where
  "single_flight s =
     (distinct (map fst (dependencyInstallationPromises s)) \<and>
      installer_calls (trace s) = map fst (dependencyInstallationPromises s))"

text \<open>
  What the installations of a connection consist of: the map of installation promises,
  the promises, and the calls of \<^verbatim>\<open>installDependenciesForPackage\<close>.
\<close>

definition installations :: "session \<Rightarrow> nat URLMap \<times> promise list \<times> string list" where
  "installations s =
     (dependencyInstallationPromises s, promises s, installer_calls (trace s))"

section \<open>Locations in dependencies (dependencies.ts and server.ts)\<close>
























section \<open>\<^verbatim>\<open>mapFileLocation\<close> (server.ts)\<close>







section \<open>A connection to evaluate on\<close>

text \<open>
  The workspace of the spec's scenarios: \<^verbatim>\<open>a.ts\<close> and \<^verbatim>\<open>b.ts\<close>, a \<^verbatim>\<open>package.json\<close> whose
  dependencies are \<^verbatim>\<open>lodash\<close> (without typings in the registry), \<^verbatim>\<open>@types/node\<close> and
  \<^verbatim>\<open>left-pad\<close> (whose metadata cannot be fetched), and a \<^verbatim>\<open>tsconfig.json\<close> that names a
  compiler plugin; diagnostics are enabled.
\<close>

definition example_packageJson :: packageJson where
  "example_packageJson =
     \<lparr>name = ''app'', pkg_version = ''1.0.0'', repository = None,
      dependencies = Some [(''lodash'', ''*''), (''@types/node'', ''^10''), (''left-pad'', ''1.0.0'')],
      devDependencies = None, optionalDependencies = None\<rparr>"

definition example_tsconfig :: json where
  "example_tsconfig =
     JObject [(''compilerOptions'',
               JObject [(''strict'', JBool True),
                        (''plugins'', JArray [JObject [(''name'', JString ''evil-plugin'')]])])]"

definition example_files :: fs where
  "example_files =
     [(''/tmp/c/repo/package.json'', PackageJsonFile example_packageJson),
      (''/tmp/c/repo/tsconfig.json'', JsonFile example_tsconfig),
      (''/tmp/c/repo/a.ts'', TextFile ''export const a = 1''),
      (''/tmp/c/repo/b.ts'', TextFile ''export const b = 2'')]"

definition example_settings :: settings where
  "example_settings =
     \<lparr>diagnostics_enable = Some True, restartAfterDependencyInstallation = None,
      sourcegraphUrl = None, accessToken = None\<rparr>"

definition example_session :: session where
  "example_session =
     initialized example_httpRoot example_fileRoot example_tempDir example_settings
       \<lparr>client_params = ''{}'', rootPath = ''/tmp/c/repo'', rootUri = ''file:///tmp/c/repo/''\<rparr>
       [example_httpRoot] example_files"

definition example_world :: world where
  "example_world =
     \<lparr>spawnLanguageServer_error = None,
      initialize_response = Inr ''{capabilities}'',
      registry_types =
        (\<lambda>dep semver. if dep = ''lodash'' then Inr False
                       else if dep = ''left-pad'' then Inl (Error ''ENOTFOUND'')
                       else Inr True),
      mkdirp_error = None,
      install_error = None,
      install_files = [(''/tmp/c/repo/node_modules/@types/node/index.d.ts'', TextFile '''')],
      cancelled_in_filter = False,
      cancelled_in_sanitize = False,
      cancelled_in_catch = False\<rparr>"

text \<open>
  The same connection with a \<^verbatim>\<open>package.json\<close> whose only dependency is \<^verbatim>\<open>lodash\<close>, and
  a world in which the installer fails.
\<close>

definition untyped_session :: session where
  "untyped_session =
     example_session
       \<lparr>files := [(''/tmp/c/repo/package.json'',
                   PackageJsonFile (example_packageJson\<lparr>dependencies := Some [(''lodash'', ''*'')]\<rparr>))]\<rparr>"

definition failing_world :: world where
  "failing_world = example_world\<lparr>install_error := Some (Error ''yarn exited with code 1'')\<rparr>"

text \<open>
  The spec's scenario of a restart: the language server is spawned, the client opens
  \<^verbatim>\<open>a.ts\<close>, the server opens \<^verbatim>\<open>b.ts\<close> for a request, and the client opens \<^verbatim>\<open>a.ts\<close> again
  with new content.
\<close>

definition example_events :: "event list" where
  "example_events =
     [RestartLanguageServer example_world,
      ClientDidOpen \<lparr>uri = ''https://h/repo@abc/-/raw/a.ts'', languageId = ''typescript'',
                      version = 1, content = ''export const a = 1''\<rparr>,
      OpenTextDocument
        \<lparr>protocol = ''file:'', host = '''', segments = [''tmp'', ''c'', ''repo'', ''b.ts'']\<rparr>
        (Inr ''export const b = 2''),
      ClientDidOpen \<lparr>uri = ''https://h/repo@abc/-/raw/a.ts'', languageId = ''typescript'',
                      version = 2, content = ''export const a = 2''\<rparr>]"

text \<open>
  What follows the first call for the package root of the workspace: a request for
  \<^verbatim>\<open>a.ts\<close> ensures the dependencies of the document, the installation runs and fails,
  and the package root is ensured once more.
\<close>

definition example_later :: "event list" where
  "example_later =
     [EnsureDependenciesForDocument
        \<lparr>protocol = ''https:'', host = ''h'', segments = [''repo@abc'', ''-'', ''raw'', ''a.ts'']\<rparr>
        False,
      InstallationSettles failing_world example_httpRoot,
      EnsureDependenciesForPackageRoot example_httpRoot,
      InstallationSettles example_world example_httpRoot]"







section \<open>Lemmas on strings, paths and URLs\<close>




lemma startsWith_prefix: "startsWith s p = prefix p s"
  by (induction s p rule: startsWith.induct) auto

lemma str_includes_sublist: "str_includes s p = sublist p s"
  by (induction s) (auto simp: startsWith_prefix sublist_Cons_right)

lemma takeWhile_upto: "c \<notin> set xs \<Longrightarrow> takeWhile (\<lambda>x. x \<noteq> c) (xs @ c # ys) = xs"
  by (induction xs) auto

lemma dropWhile_upto: "c \<notin> set xs \<Longrightarrow> dropWhile (\<lambda>x. x \<noteq> c) (xs @ c # ys) = c # ys"
  by (induction xs) auto




lemma path_state_plain: "plain_segments xs \<Longrightarrow> path_state acc xs = acc @ xs"
proof (induction xs arbitrary: acc)
  case Nil
  then show ?case by simp
next
  case (Cons x xs)
  show ?case
  proof (cases xs)
    case Nil
    with Cons.prems show ?thesis by (simp add: plain_segments_def)
  next
    case (Cons y ys)
    with Cons.prems Cons.IH [of "acc @ [x]"] show ?thesis
      by (simp add: plain_segments_def)
  qed
qed

lemma path_state_plain_append:
  "plain_segments xs \<Longrightarrow> ys \<noteq> [] \<Longrightarrow> path_state acc (xs @ ys) = path_state (acc @ xs) ys"
proof (induction xs arbitrary: acc)
  case Nil
  then show ?case by simp
next
  case (Cons x xs)
  from Cons.prems obtain z zs where zs: "xs @ ys = z # zs"
    by (cases "xs @ ys") auto
  from Cons.prems have x: "x \<noteq> ''..''" "x \<noteq> ''.''" and xs: "plain_segments xs"
    by (simp_all add: plain_segments_def)
  have "path_state acc ((x # xs) @ ys) = path_state (acc @ [x]) (xs @ ys)"
    using x zs by simp
  also have "\<dots> = path_state ((acc @ [x]) @ xs) ys"
    using Cons.IH [OF xs Cons.prems(2)] .
  finally show ?case by simp
qed

lemma plain_segments_append [simp]:
  "plain_segments (xs @ ys) = (plain_segments xs \<and> plain_segments ys)"
  by (simp add: plain_segments_def)

lemma plain_segments_butlast: "plain_segments xs \<Longrightarrow> plain_segments (butlast xs)"
  by (auto simp: plain_segments_def list_all_iff dest: in_set_butlastD)

lemma strip_common_extend: "r \<noteq> [] \<Longrightarrow> strip_common d (d @ r) = ([], r)"
  by (induction d) (auto split: list.splits)

lemma split_slash_plain: "CHR ''/'' \<notin> set seg \<Longrightarrow> split_slash seg = [seg]"
  by (induction seg) auto

lemma split_slash_segment:
  "CHR ''/'' \<notin> set seg \<Longrightarrow> split_slash (seg @ CHR ''/'' # t) = seg # split_slash t"
  by (induction seg) auto

lemma split_join_slash:
  "segs \<noteq> [] \<Longrightarrow> \<forall>seg \<in> set segs. CHR ''/'' \<notin> set seg \<Longrightarrow>
   split_slash (join_slash segs) = segs"
  by (induction segs rule: join_slash.induct) (auto simp: split_slash_plain split_slash_segment)

lemma pathname_join_slash:
  "segs \<noteq> [] \<Longrightarrow> concat (map (\<lambda>seg. CHR ''/'' # seg) segs) = CHR ''/'' # join_slash segs"
  by (induction segs rule: join_slash.induct) auto




lemma valid_url_protocol:
  "valid_url u \<Longrightarrow> \<exists>scheme. protocol u = scheme @ '':'' \<and> scheme \<noteq> [] \<and> CHR '':'' \<notin> set scheme"
  unfolding valid_url_def by (metis append_butlast_last_id)


lemma href_under_directory:
  assumes "segments root \<noteq> []" "last (segments root) = ''''" "r \<noteq> []"
  shows "startsWith (href \<lparr>protocol = protocol root, host = host root,
                            segments = butlast (segments root) @ r\<rparr>) (href root)"
proof -
  obtain x xs where r: "r = x # xs" using assms(3) by (cases r) auto
  have "segments root = butlast (segments root) @ ['''']"
    using assms(1,2) by (metis append_butlast_last_id)
  then have "pathname root = concat (map (\<lambda>seg. CHR ''/'' # seg) (butlast (segments root))) @ ''/''"
    by (metis (no_types, lifting) pathname_def concat.simps concat_append list.simps(8,9) map_append append_Nil2)
  then show ?thesis
    by (simp add: href_def pathname_def r startsWith_prefix)
qed

lemma new_URL_site_path:
  assumes "scheme \<noteq> []" "CHR '':'' \<notin> set scheme" "CHR ''/'' \<notin> set authority"
    and "segs \<noteq> []" "\<forall>seg \<in> set segs. CHR ''/'' \<notin> set seg"
  shows "new_URL (scheme @ '':'' @ ''//'' @ authority @ concat (map (\<lambda>seg. CHR ''/'' # seg) segs)) =
         Inr \<lparr>protocol = scheme @ '':'', host = authority, segments = path_state [] segs\<rparr>"
proof -
  let ?p = "CHR ''/'' # join_slash segs"
  let ?s = "scheme @ CHR '':'' # (''//'' @ authority @ ?p)"
  have tw: "takeWhile (\<lambda>c. c \<noteq> CHR '':'') ?s = scheme"
    using assms(2) by (rule takeWhile_upto)
  have dw: "dropWhile (\<lambda>c. c \<noteq> CHR '':'') ?s = CHR '':'' # (''//'' @ authority @ ?p)"
    using assms(2) by (rule dropWhile_upto)
  have ta: "takeWhile (\<lambda>c. c \<noteq> CHR ''/'') (authority @ ?p) = authority"
    using assms(3) by (rule takeWhile_upto)
  have da: "dropWhile (\<lambda>c. c \<noteq> CHR ''/'') (authority @ ?p) = ?p"
    using assms(3) by (rule dropWhile_upto)
  have "new_URL ?s = Inr \<lparr>protocol = scheme @ '':'', host = authority,
                            segments = path_state [] (split_slash (join_slash segs))\<rparr>"
    unfolding new_URL_def Let_def tw dw using assms(1) ta da by simp
  then show ?thesis
    using assms(4,5) by (simp add: split_join_slash pathname_join_slash)
qed

lemma mapHttpToFileUrlSimple_extend:
  assumes h: "segments httpRoot \<noteq> []" and f: "is_directory fileRoot"
    and rel: "rel \<noteq> []" "plain_segments rel"
  shows "mapHttpToFileUrlSimple httpRoot fileRoot
           \<lparr>protocol = protocol httpRoot, host = host httpRoot,
            segments = butlast (segments httpRoot) @ rel\<rparr> =
         Inr \<lparr>protocol = protocol fileRoot, host = host fileRoot,
              segments = butlast (segments fileRoot) @ rel\<rparr>"
proof -
  from f have segf: "segments fileRoot \<noteq> []" "last (segments fileRoot) = []"
    and pf: "plain_segments (butlast (segments fileRoot))"
    by (simp_all add: is_directory_def valid_url_def plain_segments_butlast)
  have r: "relativeUrl httpRoot \<lparr>protocol = protocol httpRoot, host = host httpRoot,
             segments = butlast (segments httpRoot) @ rel\<rparr> = PathRef rel"
    using rel(1) by (simp add: relativeUrl_def strip_common_extend)
  have p: "path_state [] (butlast (segments fileRoot) @ rel) = butlast (segments fileRoot) @ rel"
    using pf rel(2) by (simp add: path_state_plain)
  show ?thesis
    unfolding mapHttpToFileUrlSimple_def Let_def r
    using href_under_directory [OF segf rel(1)] by (simp add: p)
qed


section \<open>The URI mapper: path escape and round trip\<close>

text \<open>
  Claim C1, as amended. For every URI \<open>u\<close> and all roots, \<^verbatim>\<open>mapHttpToFileUrlSimple\<close>
  either throws or returns a file URI whose href starts with the href of the file root.
  The text \<^verbatim>\<open>httpRoot + "/../etc/passwd"\<close> does not escape: for every valid HTTP root
  and every file root that is a directory URL, the URL parser removes the \<^verbatim>\<open>..\<close>
  together with the last segment of the root, and the parsed URI is mapped to
  \<^verbatim>\<open>etc/passwd\<close> under the file root, without an error.
\<close>

theorem httpToFile_under_fileRoot:
  "(case mapHttpToFileUrlSimple httpRoot fileRoot u of
      Inl e \<Rightarrow> True
    | Inr fileUri \<Rightarrow> startsWith (href fileUri) (href fileRoot)) \<and>
   (valid_url httpRoot \<and> is_directory fileRoot \<longrightarrow>
      (case new_URL (href httpRoot @ ''/../etc/passwd'') of
         Inl e \<Rightarrow> False
       | Inr traversal \<Rightarrow>
           mapHttpToFileUrlSimple httpRoot fileRoot traversal =
           Inr \<lparr>protocol = protocol fileRoot, host = host fileRoot,
                segments = butlast (segments fileRoot) @ [''etc'', ''passwd'']\<rparr>))"
proof (intro conjI impI)
  show "case mapHttpToFileUrlSimple httpRoot fileRoot u of
          Inl e \<Rightarrow> True
        | Inr fileUri \<Rightarrow> startsWith (href fileUri) (href fileRoot)"
    by (simp add: mapHttpToFileUrlSimple_def Let_def)
next
  assume a: "valid_url httpRoot \<and> is_directory fileRoot"
  then have vh: "valid_url httpRoot" and df: "is_directory fileRoot" by simp_all
  from valid_url_protocol [OF vh] obtain scheme where
    sch: "protocol httpRoot = scheme @ '':''" "scheme \<noteq> []" "CHR '':'' \<notin> set scheme" by auto
  from vh have hh: "CHR ''/'' \<notin> set (host httpRoot)" and segh: "segments httpRoot \<noteq> []"
    and ph: "plain_segments (segments httpRoot)" by (simp_all add: valid_url_def)
  let ?raw = "segments httpRoot @ [''..'', ''etc'', ''passwd'']"
  have raw: "\<forall>seg \<in> set ?raw. CHR ''/'' \<notin> set seg"
    using ph by (auto simp: plain_segments_def list_all_iff)
  have raw_text: "href httpRoot @ ''/../etc/passwd'' =
      scheme @ '':'' @ ''//'' @ host httpRoot @ concat (map (\<lambda>seg. CHR ''/'' # seg) ?raw)"
    by (simp add: href_def pathname_def sch)
  have norm: "path_state [] ?raw = butlast (segments httpRoot) @ [''etc'', ''passwd'']"
  proof -
    have "path_state [] ?raw = path_state ([] @ segments httpRoot) [''..'', ''etc'', ''passwd'']"
      using ph by (intro path_state_plain_append) simp_all
    also have "\<dots> = butlast (segments httpRoot) @ [''etc'', ''passwd'']"
      using segh by (cases "segments httpRoot") simp_all
    finally show ?thesis .
  qed
  have parsed: "new_URL (href httpRoot @ ''/../etc/passwd'') =
      Inr \<lparr>protocol = protocol httpRoot, host = host httpRoot,
           segments = butlast (segments httpRoot) @ [''etc'', ''passwd'']\<rparr>"
    unfolding raw_text using new_URL_site_path [OF sch(2,3) hh _ raw] by (simp add: norm sch(1))
  show "case new_URL (href httpRoot @ ''/../etc/passwd'') of
          Inl e \<Rightarrow> False
        | Inr traversal \<Rightarrow>
            mapHttpToFileUrlSimple httpRoot fileRoot traversal =
            Inr \<lparr>protocol = protocol fileRoot, host = host fileRoot,
                 segments = butlast (segments fileRoot) @ [''etc'', ''passwd'']\<rparr>"
    unfolding parsed using mapHttpToFileUrlSimple_extend [OF segh df, of "[''etc'', ''passwd'']"]
    by (simp add: plain_segments_def)
qed

text \<open>
  The theorem at the roots of the spec's first scenario; the last conjunct is a URI that
  does escape, \<^verbatim>\<open>https://h/etc/passwd\<close>, and the error it gets.
\<close>

theorem httpToFile_under_fileRoot_witness:
  "valid_url example_httpRoot \<and> is_directory example_fileRoot \<and>
   new_URL (href example_httpRoot @ ''/../etc/passwd'') =
     Inr \<lparr>protocol = ''https:'', host = ''h'', segments = [''repo@abc'', ''-'', ''raw'', ''etc'', ''passwd'']\<rparr> \<and>
   mapHttpToFileUrlSimple example_httpRoot example_fileRoot
     \<lparr>protocol = ''https:'', host = ''h'', segments = [''repo@abc'', ''-'', ''raw'', ''etc'', ''passwd'']\<rparr> =
     Inr \<lparr>protocol = ''file:'', host = '''', segments = [''tmp'', ''c'', ''repo'', ''etc'', ''passwd'']\<rparr> \<and>
   mapHttpToFileUrlSimple example_httpRoot example_fileRoot
     \<lparr>protocol = ''https:'', host = ''h'', segments = [''etc'', ''passwd'']\<rparr> =
     Inl (Error ''URI https://h/etc/passwd is not under rootUri https://h/repo@abc/-/raw/'')"
proof -
  have v: "valid_url example_httpRoot \<and> is_directory example_fileRoot"
    by (simp add: valid_url_def is_directory_def plain_segments_def example_httpRoot_def
        example_fileRoot_def)
  have p: "new_URL (href example_httpRoot @ ''/../etc/passwd'') =
     Inr \<lparr>protocol = ''https:'', host = ''h'', segments = [''repo@abc'', ''-'', ''raw'', ''etc'', ''passwd'']\<rparr>"
    by (simp add: new_URL_def href_def pathname_def example_httpRoot_def)
  have e: "mapHttpToFileUrlSimple example_httpRoot example_fileRoot
     \<lparr>protocol = ''https:'', host = ''h'', segments = [''etc'', ''passwd'']\<rparr> =
     Inl (Error ''URI https://h/etc/passwd is not under rootUri https://h/repo@abc/-/raw/'')"
    by (simp add: mapHttpToFileUrlSimple_def relativeUrl_def href_def pathname_def
        example_httpRoot_def example_fileRoot_def)
  from httpToFile_under_fileRoot [where httpRoot = example_httpRoot and fileRoot = example_fileRoot and u = example_httpRoot] v
  show ?thesis unfolding p using v p e by (simp add: example_fileRoot_def)
qed

text \<open>
  Claim C1 as stated fails: with the HTTP root \<^verbatim>\<open>https://h/repo@abc/-/raw/\<close> the input
  \<^verbatim>\<open>httpRoot + "/../etc/passwd"\<close> is the URL \<^verbatim>\<open>https://h/repo@abc/-/raw/etc/passwd\<close>, and
  \<^verbatim>\<open>mapHttpToFileUrlSimple\<close> returns \<^verbatim>\<open>file:///tmp/c/repo/etc/passwd\<close> instead of
  throwing.
\<close>

theorem traversal_text_counterexample:
  "href example_httpRoot = ''https://h/repo@abc/-/raw/'' \<and>
   new_URL (''https://h/repo@abc/-/raw/'' @ ''/../etc/passwd'') =
     Inr \<lparr>protocol = ''https:'', host = ''h'',
          segments = [''repo@abc'', ''-'', ''raw'', ''etc'', ''passwd'']\<rparr> \<and>
   mapHttpToFileUrlSimple example_httpRoot example_fileRoot
     \<lparr>protocol = ''https:'', host = ''h'',
      segments = [''repo@abc'', ''-'', ''raw'', ''etc'', ''passwd'']\<rparr> =
     Inr \<lparr>protocol = ''file:'', host = '''',
          segments = [''tmp'', ''c'', ''repo'', ''etc'', ''passwd'']\<rparr>"
  by (simp add: new_URL_def mapHttpToFileUrlSimple_def relativeUrl_def href_def pathname_def
      example_httpRoot_def example_fileRoot_def)



section \<open>Diagnostics\<close>

lemma str_includes_append: "str_includes s p \<Longrightarrow> str_includes (t @ s) p"
  by (simp add: str_includes_sublist sublist_appendI sublist_order.order_trans)

text \<open>
  Claim C5. A publish-diagnostics notification whose URI contains \<^verbatim>\<open>/node_modules/\<close>,
  in particular one whose URI is the href of a URL with \<^verbatim>\<open>/node_modules/\<close> in its path,
  sends nothing to the client. Whatever the notification, the client gets nothing or
  exactly one notification: the parameters received, with the URI replaced by one that
  starts with the href of the HTTP root.
\<close>

theorem diagnostics_filtered_and_rewritten:
  "(str_includes (diagnostics_uri params) ''/node_modules/'' \<longrightarrow>
      client (onPublishDiagnostics params s) = client s) \<and>
   (diagnostics_uri params = href u \<and> str_includes (pathname u) ''/node_modules/'' \<longrightarrow>
      client (onPublishDiagnostics params s) = client s) \<and>
   (client (onPublishDiagnostics params s) = client s \<or>
    (\<exists>httpUri. startsWith httpUri (href (httpRootUri s)) \<and>
       client (onPublishDiagnostics params s) =
       client s @ [PublishDiagnosticsNotification (params\<lparr>diagnostics_uri := httpUri\<rparr>)]))"
proof (intro conjI impI)
  show "client (onPublishDiagnostics params s) = client s"
    if "str_includes (diagnostics_uri params) ''/node_modules/''"
    using that by (simp add: onPublishDiagnostics_def forwardDiagnostics_def)
  show "client (onPublishDiagnostics params s) = client s"
    if "diagnostics_uri params = href u \<and> str_includes (pathname u) ''/node_modules/''"
  proof -
    from that have "str_includes (diagnostics_uri params) ''/node_modules/''"
      unfolding href_def
      using str_includes_append [of "pathname u" "''/node_modules/''" "protocol u @ ''//'' @ host u"]
      by simp
    then show ?thesis by (simp add: onPublishDiagnostics_def forwardDiagnostics_def)
  qed
  show "client (onPublishDiagnostics params s) = client s \<or>
    (\<exists>httpUri. startsWith httpUri (href (httpRootUri s)) \<and>
       client (onPublishDiagnostics params s) =
       client s @ [PublishDiagnosticsNotification (params\<lparr>diagnostics_uri := httpUri\<rparr>)])"
    by (auto simp: onPublishDiagnostics_def forwardDiagnostics_def log_error_def
        mapFileToHttpUrlSimple_def Let_def split: sum.splits if_splits)
qed

text \<open>
  The spec's fifth scenario: of the diagnostics for
  \<^verbatim>\<open>file:///tmp/c/repo/node_modules/x/y.ts\<close> and for \<^verbatim>\<open>file:///tmp/c/repo/src/z.ts\<close> only
  the second reaches the client, as \<^verbatim>\<open>https://h/repo@abc/-/raw/src/z.ts\<close>.
\<close>

theorem diagnostics_filtered_and_rewritten_witness:
  "str_includes ''file:///tmp/c/repo/node_modules/x/y.ts'' ''/node_modules/'' \<and>
   client (onPublishDiagnostics
             \<lparr>diagnostics_uri = ''file:///tmp/c/repo/node_modules/x/y.ts'', diagnostics = ''[d]''\<rparr>
             example_session) = [] \<and>
   client (onPublishDiagnostics
             \<lparr>diagnostics_uri = ''file:///tmp/c/repo/src/z.ts'', diagnostics = ''[d]''\<rparr>
             example_session) =
     [PublishDiagnosticsNotification
        \<lparr>diagnostics_uri = ''https://h/repo@abc/-/raw/src/z.ts'', diagnostics = ''[d]''\<rparr>] \<and>
   startsWith ''https://h/repo@abc/-/raw/src/z.ts'' (href (httpRootUri example_session))"
proof -
  have inc: "str_includes ''file:///tmp/c/repo/node_modules/x/y.ts'' ''/node_modules/''"
    by simp
  have empty: "client example_session = []"
    by (simp add: example_session_def initialized_def)
  have fwd: "client (onPublishDiagnostics
             \<lparr>diagnostics_uri = ''file:///tmp/c/repo/src/z.ts'', diagnostics = ''[d]''\<rparr>
             example_session) =
     [PublishDiagnosticsNotification
        \<lparr>diagnostics_uri = ''https://h/repo@abc/-/raw/src/z.ts'', diagnostics = ''[d]''\<rparr>]"
    by (simp add: onPublishDiagnostics_def forwardDiagnostics_def example_session_def
        initialized_def example_settings_def new_URL_def mapFileToHttpUrlSimple_def
        relativeUrl_def href_def pathname_def example_httpRoot_def example_fileRoot_def)
  have root: "startsWith ''https://h/repo@abc/-/raw/src/z.ts'' (href (httpRootUri example_session))"
    by (simp add: example_session_def initialized_def href_def pathname_def example_httpRoot_def)
  from diagnostics_filtered_and_rewritten
         [where params = "\<lparr>diagnostics_uri = ''file:///tmp/c/repo/node_modules/x/y.ts'',
                             diagnostics = ''[d]''\<rparr>"
            and s = example_session and u = example_httpRoot]
       inc empty fwd root
  show ?thesis by simp
qed

section \<open>Sanitizing tsconfig.json files\<close>

lemma sanitizeTsConfigs_state: "snd (sanitizeTsConfigs dir cancelled s) = s"
  by (simp add: sanitizeTsConfigs_def throwIfCancelled_def)

lemma sanitizeTsConfigs_result:
  "fst (sanitizeTsConfigs dir cancelled s) = (if cancelled then Inl AbortError else Inr ())"
  by (simp add: sanitizeTsConfigs_def throwIfCancelled_def)

text \<open>
  Claim C7 fails on the code. The workspace of \<open>example_session\<close> has a
  \<^verbatim>\<open>tsconfig.json\<close> with \<^verbatim>\<open>compilerOptions.plugins\<close>. \<^verbatim>\<open>sanitizeTsConfigs\<close> on the
  extraction directory, as the initialize handler calls it, resolves with the session
  as it was: the file still names the plugin. Consuming the sequence that the function
  builds and drops, as the other uses of \<^verbatim>\<open>flatMapConcurrent\<close> in server.ts do, is what
  rewrites the file without the plugins.
\<close>

theorem sanitizeTsConfigs_leaves_plugins:
  "has_plugins example_tsconfig \<and>
   readFile (files example_session) ''/tmp/c/repo/tsconfig.json'' =
     Inr (JsonFile example_tsconfig) \<and>
   sanitizeTsConfigs (pathToFileURL (extractPath example_session)) False example_session =
     (Inr (), example_session) \<and>
   readFile
     (files (snd (toArray
        (flatMapConcurrent
           (glob (new_URL_rel (PathRef [''**'', ''tsconfig.json''])
                    (pathToFileURL (extractPath example_session))))
           10 (sanitizeTsConfig False))
        example_session)))
     ''/tmp/c/repo/tsconfig.json'' =
     Inr (JsonFile (JObject [(''compilerOptions'', JObject [(''strict'', JBool True)])]))"
proof (intro conjI)
  show "has_plugins example_tsconfig"
    by (simp add: has_plugins_def example_tsconfig_def)
  show "readFile (files example_session) ''/tmp/c/repo/tsconfig.json'' =
     Inr (JsonFile example_tsconfig)"
    by (simp add: readFile_def example_session_def initialized_def example_files_def)
  show "sanitizeTsConfigs (pathToFileURL (extractPath example_session)) False example_session =
     (Inr (), example_session)"
    by (simp add: sanitizeTsConfigs_def throwIfCancelled_def)
  have ep: "extractPath example_session = ''/tmp/c/repo''"
    by (simp add: extractPath_def example_session_def initialized_def example_fileRoot_def)
  have pat: "new_URL_rel (PathRef [''**'', ''tsconfig.json'']) (pathToFileURL ''/tmp/c/repo'') =
     \<lparr>protocol = ''file:'', host = [], segments = [''tmp'', ''c'', ''**'', ''tsconfig.json'']\<rparr>"
    by (simp add: pathToFileURL_def)
  have found: "toArray (glob \<lparr>protocol = ''file:'', host = [],
                  segments = [''tmp'', ''c'', ''**'', ''tsconfig.json'']\<rparr>) example_session =
     (Inr [pathToFileURL ''/tmp/c/repo/tsconfig.json''], example_session)"
    by (simp add: glob_def example_session_def initialized_def example_files_def)
  have p: "fileURLToPath (pathToFileURL ''/tmp/c/repo/tsconfig.json'') = ''/tmp/c/repo/tsconfig.json''"
    by (simp add: fileURLToPath_def pathToFileURL_def pathname_def)
  show "readFile
     (files (snd (toArray
        (flatMapConcurrent
           (glob (new_URL_rel (PathRef [''**'', ''tsconfig.json''])
                    (pathToFileURL (extractPath example_session))))
           10 (sanitizeTsConfig False))
        example_session)))
     ''/tmp/c/repo/tsconfig.json'' =
     Inr (JsonFile (JObject [(''compilerOptions'', JObject [(''strict'', JBool True)])]))"
    unfolding ep pat
    by (simp add: flatMapConcurrent_def found sanitizeTsConfig_def throwIfCancelled_def p)
       (simp add: readFile_def writeFile_def example_session_def initialized_def
          example_files_def has_plugins_def example_tsconfig_def p)
qed

section \<open>Filtering dependencies\<close>

lemma written_append [simp]: "written (xs @ ys) = written xs @ written ys"
  by (induction xs rule: written.induct) simp_all

lemma installer_runs_append [simp]:
  "installer_runs (xs @ ys) = installer_runs xs @ installer_runs ys"
  by (induction xs rule: installer_runs.induct) simp_all

lemma installer_calls_append [simp]:
  "installer_calls (xs @ ys) = installer_calls xs @ installer_calls ys"
  by (induction xs rule: installer_calls.induct) simp_all

lemma inspection_errors_quiet [simp]:
  "written (inspection_errors w pkg) = []"
  "installer_runs (inspection_errors w pkg) = []"
  "installer_calls (inspection_errors w pkg) = []"
proof -
  have "written (concat (map (\<lambda>entry. case inspect_dependency w entry of
            Failed err \<Rightarrow> [LoggerError (''Error inspecting dependency '' @ fst entry) err]
          | _ \<Rightarrow> []) xs)) = []" for xs
    by (induction xs) (auto split: verdict.splits)
  then show "written (inspection_errors w pkg) = []"
    by (simp add: inspection_errors_def)
  have "installer_runs (concat (map (\<lambda>entry. case inspect_dependency w entry of
            Failed err \<Rightarrow> [LoggerError (''Error inspecting dependency '' @ fst entry) err]
          | _ \<Rightarrow> []) xs)) = []" for xs
    by (induction xs) (auto split: verdict.splits)
  then show "installer_runs (inspection_errors w pkg) = []"
    by (simp add: inspection_errors_def)
  have "installer_calls (concat (map (\<lambda>entry. case inspect_dependency w entry of
            Failed err \<Rightarrow> [LoggerError (''Error inspecting dependency '' @ fst entry) err]
          | _ \<Rightarrow> []) xs)) = []" for xs
    by (induction xs) (auto split: verdict.splits)
  then show "installer_calls (inspection_errors w pkg) = []"
    by (simp add: inspection_errors_def)
qed

lemma included_entries: "included w pkg \<noteq> [] \<Longrightarrow> all_entries pkg \<noteq> []"
  by (auto simp: included_def)

lemma filterDependencies_read:
  assumes "readFile (files s) p = Inr (PackageJsonFile pkg)"
    and "\<not> cancelled_in_filter w \<or> all_entries pkg = []"
  shows "filterDependencies w p s =
     (Inr (included w pkg \<noteq> []),
      if included w pkg \<noteq> [] \<and> excluded w pkg \<noteq> []
      then writeFile p (PackageJsonFile (filtered w pkg))
             (s\<lparr>trace := trace s @ inspection_errors w pkg\<rparr>)
      else s\<lparr>trace := trace s @ inspection_errors w pkg\<rparr>)"
  using assms by (auto simp: filterDependencies_def Let_def)

lemma filterDependencies_written:
  "written (trace (snd (filterDependencies w p s))) =
   written (trace s) @
   (if \<exists>pkg. readFile (files s) p = Inr (PackageJsonFile pkg) \<and> \<not> cancelled_in_filter w \<and>
              included w pkg \<noteq> [] \<and> excluded w pkg \<noteq> []
    then [p] else [])"
  by (auto simp: filterDependencies_def Let_def writeFile_def included_entries
      split: sum.splits file_content.splits)

text \<open>
  Claim C6. \<^verbatim>\<open>filterDependencies\<close> writes the \<^verbatim>\<open>package.json\<close> exactly when the file is
  read, the call is not cancelled, and at least one dependency is included and at least
  one excluded; then it writes that one path once. When the file is read and nothing
  is excluded, the files are left as they were. When the \<^verbatim>\<open>package.json\<close> of a package
  root is read and no dependency is included, \<^verbatim>\<open>installDependenciesForPackage\<close>
  resolves without a run of the installer.
\<close>

theorem filterDependencies_write_and_install:
  "written (trace (snd (filterDependencies w p s))) =
     written (trace s) @
     (if \<exists>pkg. readFile (files s) p = Inr (PackageJsonFile pkg) \<and> \<not> cancelled_in_filter w \<and>
                included w pkg \<noteq> [] \<and> excluded w pkg \<noteq> []
      then [p] else []) \<and>
   (readFile (files s) p = Inr (PackageJsonFile pkg) \<and> \<not> cancelled_in_filter w \<longrightarrow>
      fst (filterDependencies w p s) = Inr (included w pkg \<noteq> []) \<and>
      (excluded w pkg = [] \<longrightarrow> files (snd (filterDependencies w p s)) = files s)) \<and>
   (readFile (files s) (absPackageJsonPath s packageRootUri) = Inr (PackageJsonFile pkg) \<and>
    \<not> cancelled_in_filter w \<and> included w pkg = [] \<longrightarrow>
      fst (installDependenciesForPackage w packageRootUri s) = Inr () \<and>
      installer_runs (trace (snd (installDependenciesForPackage w packageRootUri s))) =
      installer_runs (trace s))"
proof (intro conjI impI)
  show "written (trace (snd (filterDependencies w p s))) =
     written (trace s) @
     (if \<exists>pkg. readFile (files s) p = Inr (PackageJsonFile pkg) \<and> \<not> cancelled_in_filter w \<and>
                included w pkg \<noteq> [] \<and> excluded w pkg \<noteq> []
      then [p] else [])"
    by (rule filterDependencies_written)
next
  assume a: "readFile (files s) p = Inr (PackageJsonFile pkg) \<and> \<not> cancelled_in_filter w"
  then have f: "filterDependencies w p s =
     (Inr (included w pkg \<noteq> []),
      if included w pkg \<noteq> [] \<and> excluded w pkg \<noteq> []
      then writeFile p (PackageJsonFile (filtered w pkg))
             (s\<lparr>trace := trace s @ inspection_errors w pkg\<rparr>)
      else s\<lparr>trace := trace s @ inspection_errors w pkg\<rparr>)"
    by (intro filterDependencies_read) simp_all
  show "fst (filterDependencies w p s) = Inr (included w pkg \<noteq> [])"
    by (simp add: f)
  show "files (snd (filterDependencies w p s)) = files s" if "excluded w pkg = []"
    using that by (simp add: f)
next
  assume a: "readFile (files s) (absPackageJsonPath s packageRootUri) = Inr (PackageJsonFile pkg) \<and>
    \<not> cancelled_in_filter w \<and> included w pkg = []"
  let ?rel = "relative_text (relativeUrl (httpRootUri s) packageRootUri)"
  from a have f: "filterDependencies w (path_join [extractPath s, ?rel, ''package.json'']) s =
     (Inr False, s\<lparr>trace := trace s @ inspection_errors w pkg\<rparr>)"
    using filterDependencies_read [of s "absPackageJsonPath s packageRootUri" pkg w]
    by (simp add: absPackageJsonPath_def)
  have steps: "installation_steps w ?rel s = (Inr (), s\<lparr>trace := trace s @ inspection_errors w pkg\<rparr>)"
    by (simp add: installation_steps_def Let_def f)
  show "fst (installDependenciesForPackage w packageRootUri s) = Inr ()"
    by (simp add: installDependenciesForPackage_def Let_def steps)
  show "installer_runs (trace (snd (installDependenciesForPackage w packageRootUri s))) =
      installer_runs (trace s)"
    by (simp add: installDependenciesForPackage_def Let_def steps)
qed
text \<open>
  On the example: \<^verbatim>\<open>lodash\<close> is excluded and \<^verbatim>\<open>@types/node\<close> included, so the manifest
  is written once. With \<^verbatim>\<open>lodash\<close> as the only dependency nothing is included, nothing
  is written and the installation resolves without a run of the installer.
\<close>

theorem filterDependencies_write_and_install_witness:
  "readFile (files example_session) ''/tmp/c/repo/package.json'' =
     Inr (PackageJsonFile example_packageJson) \<and>
   \<not> cancelled_in_filter example_world \<and>
   included example_world example_packageJson = [''@types/node''] \<and>
   excluded example_world example_packageJson = [''lodash''] \<and>
   written (trace (snd (filterDependencies example_world ''/tmp/c/repo/package.json''
                          example_session))) = [''/tmp/c/repo/package.json''] \<and>
   fst (filterDependencies example_world ''/tmp/c/repo/package.json'' example_session) =
     Inr True \<and>
   readFile (files untyped_session) (absPackageJsonPath untyped_session example_httpRoot) =
     Inr (PackageJsonFile (example_packageJson\<lparr>dependencies := Some [(''lodash'', ''*'')]\<rparr>)) \<and>
   included example_world (example_packageJson\<lparr>dependencies := Some [(''lodash'', ''*'')]\<rparr>) = [] \<and>
   fst (installDependenciesForPackage example_world example_httpRoot untyped_session) = Inr () \<and>
   installer_runs (trace (snd (installDependenciesForPackage example_world example_httpRoot
                                 untyped_session))) = []"
proof -
  let ?pkg2 = "example_packageJson\<lparr>dependencies := Some [(''lodash'', ''*'')]\<rparr>"
  have r1: "readFile (files example_session) ''/tmp/c/repo/package.json'' =
     Inr (PackageJsonFile example_packageJson)"
    by (simp add: readFile_def example_session_def initialized_def example_files_def)
  have c: "\<not> cancelled_in_filter example_world"
    by (simp add: example_world_def)
  have inc: "included example_world example_packageJson = [''@types/node'']"
    by (simp add: included_def all_entries_def entries_def inspect_dependency_def
        example_packageJson_def example_world_def)
  have exc: "excluded example_world example_packageJson = [''lodash'']"
    by (simp add: excluded_def all_entries_def entries_def inspect_dependency_def
        example_packageJson_def example_world_def)
  have path: "absPackageJsonPath untyped_session example_httpRoot = ''/tmp/c/repo/package.json''"
    by (simp add: absPackageJsonPath_def path_join_def extractPath_def relativeUrl_def
        untyped_session_def example_session_def initialized_def example_httpRoot_def
        example_fileRoot_def)
  have r2: "readFile (files untyped_session) (absPackageJsonPath untyped_session example_httpRoot) =
     Inr (PackageJsonFile ?pkg2)"
    unfolding path by (simp add: readFile_def untyped_session_def)
  have inc2: "included example_world ?pkg2 = []"
    by (simp add: included_def all_entries_def entries_def inspect_dependency_def
        example_packageJson_def example_world_def)
  have t1: "trace example_session = []" and t2: "trace untyped_session = []"
    by (simp_all add: untyped_session_def example_session_def initialized_def)
  from filterDependencies_write_and_install
         [where w = example_world and p = "''/tmp/c/repo/package.json''"
            and s = example_session and pkg = example_packageJson]
       r1 c inc exc t1
  have a: "written (trace (snd (filterDependencies example_world ''/tmp/c/repo/package.json''
                          example_session))) = [''/tmp/c/repo/package.json''] \<and>
     fst (filterDependencies example_world ''/tmp/c/repo/package.json'' example_session) =
     Inr True"
    by auto
  from filterDependencies_write_and_install
         [where w = example_world and s = untyped_session and pkg = ?pkg2
            and packageRootUri = example_httpRoot]
       r2 c inc2 t2
  have b: "fst (installDependenciesForPackage example_world example_httpRoot untyped_session) = Inr () \<and>
     installer_runs (trace (snd (installDependenciesForPackage example_world example_httpRoot
                                 untyped_session))) = []"
    by simp
  from r1 c inc exc a r2 inc2 b show ?thesis by simp
qed

section \<open>Errors of an installation\<close>

lemma extractPath_update [simp]:
  "extractPath (s\<lparr>files := f\<rparr>) = extractPath s"
  "extractPath (s\<lparr>trace := t\<rparr>) = extractPath s"
  by (simp_all add: extractPath_def)



section \<open>Open documents and the restart\<close>

lemma Map_set_keys:
  "map fst (Map_set m k v) = (if k \<in> fst ` set m then map fst m else map fst m @ [k])"
  by (induction m) force+


lemma map_of_Map_set: "map_of (Map_set m k v) = (map_of m)(k \<mapsto> v)"
  by (induction m) (auto simp: fun_eq_iff)












lemma history_dispose [simp]: "history (dispose_languageServer s) = history s"
  by (simp add: dispose_languageServer_def history_def split: option.splits)

lemma openTextDocuments_dispose [simp]:
  "openTextDocuments (dispose_languageServer s) = openTextDocuments s"
  by (simp add: dispose_languageServer_def split: option.splits)

lemma history_assign [simp]:
  "history (assign_languageServer spawned s) = history s @ received spawned"
  by (simp add: assign_languageServer_def history_def split: option.splits)














lemma ensureDependenciesForDocument_snd:
  "snd (ensureDependenciesForDocument textDocumentUri cancelled s) =
   (if cancelled then s else snd (ensure_all (findParentPackageRoots s textDocumentUri) s))"
  by (cases "ensure_all (findParentPackageRoots s textDocumentUri) s")
     (simp add: ensureDependenciesForDocument_def throwIfCancelled_def)







section \<open>Installations are single-flight\<close>

lemma installations_send:
  "send_to_server msg s = Inr s1 \<Longrightarrow> installations s1 = installations s"
  by (auto simp: send_to_server_def installations_def split: option.splits if_splits)

lemma installations_log_error [simp]:
  "installations (log_error message err s) = installations s"
  by (simp add: installations_def log_error_def)

lemma installations_onDidOpenTextDocument:
  "installations (onDidOpenTextDocument textDocument s) = installations s"
proof -
  have upd: "installations (s1\<lparr>openTextDocuments := d\<rparr>) = installations s"
    if "send_to_server msg s = Inr s1" for msg s1 d
    using installations_send [OF that] by (simp add: installations_def)
  show ?thesis
    by (simp add: onDidOpenTextDocument_def Let_def upd split: sum.splits)
qed

lemma installations_openTextDocument:
  "installations (snd (openTextDocument fileUri fetched s)) = installations s"
proof -
  have upd: "installations (s1\<lparr>openTextDocuments := d\<rparr>) = installations s"
    if "send_to_server msg s = Inr s1" for msg s1 d
    using installations_send [OF that] by (simp add: installations_def)
  show ?thesis
    by (simp add: openTextDocument_def Let_def upd split: sum.splits)
qed

lemma installations_restartLanguageServer:
  "installations (snd (restartLanguageServer w s)) = installations s"
  by (simp add: restartLanguageServer_def Let_def assign_languageServer_def
      dispose_languageServer_def installations_def split: option.splits sum.splits)

lemma installations_onPublishDiagnostics:
  "installations (onPublishDiagnostics params s) = installations s"
proof -
  have "installations (s\<lparr>client := c\<rparr>) = installations s" for c
    by (simp add: installations_def)
  then show ?thesis
    by (simp add: onPublishDiagnostics_def forwardDiagnostics_def split: sum.splits)
qed

lemma installations_filterDependencies:
  "installations (snd (filterDependencies w p s)) = installations s"
  by (simp add: filterDependencies_def Let_def writeFile_def installations_def
      split: sum.splits file_content.splits)

lemma installations_install:
  "installations (snd (install w cwd s)) = installations s"
  by (simp add: install_def Let_def installations_def split: option.splits)

lemma installations_installation_steps:
  "installations (snd (installation_steps w rel s)) = installations s"
proof -
  let ?p = "path_join [extractPath s, rel, ''package.json'']"
  obtain r1 s1 where f: "filterDependencies w ?p s = (r1, s1)"
    by (cases "filterDependencies w ?p s")
  with installations_filterDependencies [of w ?p s]
  have i1: "installations s1 = installations s" by simp
  let ?cwd = "path_join [extractPath s1, rel]"
  obtain r2 s2 where i: "install w ?cwd s1 = (r2, s2)"
    by (cases "install w ?cwd s1")
  with installations_install [of w ?cwd s1] i1
  have i2: "installations s2 = installations s" by simp
  let ?dir = "pathToFileURL (path_join [?cwd, ''node_modules''])"
  obtain r3 s3 where z: "sanitizeTsConfigs ?dir (cancelled_in_sanitize w) s2 = (r3, s3)"
    by (cases "sanitizeTsConfigs ?dir (cancelled_in_sanitize w) s2")
  with sanitizeTsConfigs_state [of ?dir "cancelled_in_sanitize w" s2]
  have s3: "s3 = s2" by simp
  obtain r4 s4 where r: "restartLanguageServer w s2 = (r4, s4)"
    by (cases "restartLanguageServer w s2")
  with installations_restartLanguageServer [of w s2] i2
  have i4: "installations s4 = installations s" by simp
  show ?thesis
    using i1 i2 i4
    by (simp add: installation_steps_def Let_def f i z s3 r
        split: sum.splits option.splits)
qed

lemma installations_installDependenciesForPackage:
  "installations (snd (installDependenciesForPackage w packageRootUri s)) = installations s"
proof -
  let ?rel = "relative_text (relativeUrl (httpRootUri s) packageRootUri)"
  obtain r1 s1 where st: "installation_steps w ?rel s = (r1, s1)"
    by (cases "installation_steps w ?rel s")
  with installations_installation_steps [of w ?rel s]
  have i1: "installations s1 = installations s" by simp
  have fr: "installations (s'\<lparr>finishedDependencyInstallations := F\<rparr>) = installations s'"
    for s' F
    by (simp add: installations_def)
  show ?thesis
    using i1
    by (simp add: installDependenciesForPackage_def Let_def st throwIfCancelled_def fr
        split: sum.splits)
qed

lemma installations_eqD:
  "installations s' = installations s \<Longrightarrow>
   dependencyInstallationPromises s' = dependencyInstallationPromises s \<and>
   promises s' = promises s \<and> installer_calls (trace s') = installer_calls (trace s)"
  by (simp add: installations_def)

lemma single_flight_frame:
  "single_flight s \<Longrightarrow>
   dependencyInstallationPromises s' = dependencyInstallationPromises s \<Longrightarrow>
   installer_calls (trace s') = installer_calls (trace s) \<Longrightarrow> single_flight s'"
  by (simp add: single_flight_def)

lemma settle_installations:
  "dependencyInstallationPromises (settle w packageRootUri s) = dependencyInstallationPromises s"
  "installer_calls (trace (settle w packageRootUri s)) = installer_calls (trace s)"
proof -
  obtain r1 s1 where st: "installDependenciesForPackage w packageRootUri s = (r1, s1)"
    by (cases "installDependenciesForPackage w packageRootUri s")
  with installations_installDependenciesForPackage [of w packageRootUri s]
  have "installations s1 = installations s" by simp
  from installations_eqD [OF this]
  show "dependencyInstallationPromises (settle w packageRootUri s) =
        dependencyInstallationPromises s"
    and "installer_calls (trace (settle w packageRootUri s)) = installer_calls (trace s)"
    by (simp_all add: settle_def st split: option.splits)
qed

lemma settle_settled:
  "settle w' packageRootUri (settle w packageRootUri s) = settle w packageRootUri s"
proof (cases "URLMap_get (dependencyInstallationPromises s) packageRootUri")
  case None
  then show ?thesis by (simp add: settle_def)
next
  case (Some p)
  show ?thesis
  proof (cases "p < length (promises s) \<and> promises s ! p = Pending")
    case False
    with Some have "settle w packageRootUri s = s" for w
      by (auto simp: settle_def)
    then show ?thesis by simp
  next
    case True
    obtain r1 s1 where st: "installDependenciesForPackage w packageRootUri s = (r1, s1)"
      by (cases "installDependenciesForPackage w packageRootUri s")
    with installations_installDependenciesForPackage [of w packageRootUri s]
    have "installations s1 = installations s" by simp
    from installations_eqD [OF this]
    have d: "dependencyInstallationPromises s1 = dependencyInstallationPromises s"
      and q: "promises s1 = promises s" by simp_all
    let ?v = "case r1 of Inl err \<Rightarrow> Rejected err | Inr x \<Rightarrow> Fulfilled"
    let ?s' = "s1\<lparr>promises := (promises s1)[p := ?v]\<rparr>"
    from Some True st have s': "settle w packageRootUri s = ?s'"
      by (simp add: settle_def)
    have "?v \<noteq> Pending" by (cases r1) simp_all
    with True q have "promises ?s' ! p \<noteq> Pending" by simp
    moreover from Some d
    have "URLMap_get (dependencyInstallationPromises ?s') packageRootUri = Some p" by simp
    ultimately have "settle w' packageRootUri ?s' = ?s'"
      by (simp add: settle_def del: URLMap_get.simps)
    with s' show ?thesis by simp
  qed
qed

lemma ensureDependenciesForPackageRoot_present:
  "URLMap_get (dependencyInstallationPromises s) m = Some p \<Longrightarrow>
   ensureDependenciesForPackageRoot m s = (p, s)"
  by (simp add: ensureDependenciesForPackageRoot_def del: URLMap_get.simps)

lemma ensureDependenciesForPackageRoot_stores:
  "ensureDependenciesForPackageRoot m s = (p, s1) \<Longrightarrow>
   URLMap_get (dependencyInstallationPromises s1) m = Some p"
  by (auto simp: ensureDependenciesForPackageRoot_def Let_def URLMap_set_def map_of_Map_set
      split: option.splits)

lemma ensureDependenciesForPackageRoot_keeps:
  "URLMap_get (dependencyInstallationPromises s) m = Some p \<Longrightarrow>
   URLMap_get (dependencyInstallationPromises (snd (ensureDependenciesForPackageRoot m' s))) m =
   Some p"
  by (auto simp: ensureDependenciesForPackageRoot_def Let_def URLMap_set_def map_of_Map_set
      split: option.splits)

lemma single_flight_ensureDependenciesForPackageRoot:
  assumes "single_flight s"
  shows "single_flight (snd (ensureDependenciesForPackageRoot m s))"
proof (cases "map_of (dependencyInstallationPromises s) (href m)")
  case None
  then have "href m \<notin> fst ` set (dependencyInstallationPromises s)"
    by (simp add: map_of_eq_None_iff)
  with assms None show ?thesis
    by (simp add: ensureDependenciesForPackageRoot_def Let_def URLMap_set_def Map_set_keys
        single_flight_def)
next
  case (Some p)
  with assms show ?thesis by (simp add: ensureDependenciesForPackageRoot_def)
qed

lemma ensure_all_single_flight:
  "single_flight s \<Longrightarrow> single_flight (snd (ensure_all rs s))"
proof (induction rs arbitrary: s)
  case Nil
  then show ?case by simp
next
  case (Cons r rs)
  obtain p s1 where e: "ensureDependenciesForPackageRoot r s = (p, s1)"
    by (cases "ensureDependenciesForPackageRoot r s")
  with single_flight_ensureDependenciesForPackageRoot [OF Cons.prems, of r]
  have "single_flight s1" by simp
  from Cons.IH [OF this] e show ?case
    by (cases "ensure_all rs s1") simp
qed

lemma ensure_all_keeps:
  "URLMap_get (dependencyInstallationPromises s) m = Some p \<Longrightarrow>
   URLMap_get (dependencyInstallationPromises (snd (ensure_all rs s))) m = Some p"
proof (induction rs arbitrary: s)
  case Nil
  then show ?case by simp
next
  case (Cons r rs)
  obtain q s1 where e: "ensureDependenciesForPackageRoot r s = (q, s1)"
    by (cases "ensureDependenciesForPackageRoot r s")
  with ensureDependenciesForPackageRoot_keeps [OF Cons.prems, of r]
  have "URLMap_get (dependencyInstallationPromises s1) m = Some p" by simp
  from Cons.IH [OF this] e show ?case
    by (cases "ensure_all rs s1") (simp del: URLMap_get.simps)
qed

lemma step_installations:
  "(\<exists>m. e = EnsureDependenciesForPackageRoot m) \<or> (\<exists>d c. e = EnsureDependenciesForDocument d c) \<or>
   (dependencyInstallationPromises (step e s) = dependencyInstallationPromises s \<and>
    installer_calls (trace (step e s)) = installer_calls (trace s))"
proof (cases e)
  case (SendServerRequest requestMethod requestParams)
  show ?thesis
  proof (cases "send_to_server (ServerRequest requestMethod requestParams) s")
    case (Inl err)
    with SendServerRequest show ?thesis by simp
  next
    case (Inr s1)
    from installations_eqD [OF installations_send [OF Inr]] SendServerRequest Inr
    show ?thesis by simp
  qed
qed (simp_all add: settle_installations
       installations_eqD [OF installations_onDidOpenTextDocument]
       installations_eqD [OF installations_openTextDocument]
       installations_eqD [OF installations_restartLanguageServer]
       installations_eqD [OF installations_onPublishDiagnostics])

lemma single_flight_step: "single_flight s \<Longrightarrow> single_flight (step e s)"
  using step_installations [of e s]
  by (auto simp: ensureDependenciesForDocument_snd single_flight_ensureDependenciesForPackageRoot
      ensure_all_single_flight intro: single_flight_frame)

lemma promise_kept_step:
  "URLMap_get (dependencyInstallationPromises s) m = Some p \<Longrightarrow>
   URLMap_get (dependencyInstallationPromises (step e s)) m = Some p"
  using step_installations [of e s]
  by (auto simp: ensureDependenciesForDocument_snd ensureDependenciesForPackageRoot_keeps
      ensure_all_keeps simp del: URLMap_get.simps)

lemma single_flight_run: "single_flight s \<Longrightarrow> single_flight (run events s)"
  unfolding run_def by (induction events arbitrary: s) (simp_all add: single_flight_step)

lemma promise_kept_run:
  "URLMap_get (dependencyInstallationPromises s) m = Some p \<Longrightarrow>
   URLMap_get (dependencyInstallationPromises (run events s)) m = Some p"
  unfolding run_def
  by (induction events arbitrary: s) (simp_all add: promise_kept_step del: URLMap_get.simps)

lemma single_flight_initialized:
  "single_flight (initialized httpRoot fileRoot tempDir config params packageRoots extracted)"
  by (simp add: single_flight_def initialized_def)

lemma count_list_distinct: "distinct xs \<Longrightarrow> count_list xs x = (if x \<in> set xs then 1 else 0)"
  by (induction xs) auto

text \<open>
  Claim C3. In whatever state the events of a connection have left it, once
  \<^verbatim>\<open>ensureDependenciesForPackageRoot\<close> has been called for a package root, then after any
  further events (calls for the same or other package roots and documents, settled
  installations, failed or not, restarts, notifications) the trace holds exactly one call
  of \<^verbatim>\<open>installDependenciesForPackage\<close> for that package root and at most one for any
  other, a new call for the package root returns the promise of the first call and
  changes nothing, and an installation that has settled does not run again.
\<close>

theorem installer_single_flight:
  assumes "s = run events
                 (initialized httpRoot fileRoot tempDir config params packageRoots extracted)"
    and "ensureDependenciesForPackageRoot m s = (p, s1)"
    and "s2 = run later s1"
  shows "count_list (installer_calls (trace s2)) (href m) = 1 \<and>
         (\<forall>m'. count_list (installer_calls (trace s2)) m' \<le> 1) \<and>
         ensureDependenciesForPackageRoot m s2 = (p, s2) \<and>
         settle w' m (settle w m s2) = settle w m s2"
proof -
  have "single_flight s"
    unfolding assms(1) by (intro single_flight_run single_flight_initialized)
  from single_flight_ensureDependenciesForPackageRoot [OF this, of m] assms(2)
  have "single_flight s1" by simp
  then have inv: "single_flight s2"
    unfolding assms(3) by (rule single_flight_run)
  have get: "URLMap_get (dependencyInstallationPromises s2) m = Some p"
    unfolding assms(3)
    by (rule promise_kept_run) (rule ensureDependenciesForPackageRoot_stores [OF assms(2)])
  then have "href m \<in> fst ` set (dependencyInstallationPromises s2)"
    by (auto dest: map_of_SomeD intro: rev_image_eqI)
  with inv have "count_list (installer_calls (trace s2)) (href m) = 1"
    and "\<forall>m'. count_list (installer_calls (trace s2)) m' \<le> 1"
    by (simp_all add: single_flight_def count_list_distinct)
  with ensureDependenciesForPackageRoot_present [OF get] settle_settled [of w' m w s2]
  show ?thesis by simp
qed

theorem installer_single_flight_witness:
  "ensureDependenciesForPackageRoot example_httpRoot (run example_events example_session) =
     (0, snd (ensureDependenciesForPackageRoot example_httpRoot
                (run example_events example_session))) \<and>
   installer_calls
     (trace (run example_later
               (snd (ensureDependenciesForPackageRoot example_httpRoot
                       (run example_events example_session))))) =
     [''https://h/repo@abc/-/raw/''] \<and>
   installer_runs
     (trace (run example_later
               (snd (ensureDependenciesForPackageRoot example_httpRoot
                       (run example_events example_session))))) =
     [''/tmp/c/repo''] \<and>
   count_list
     (installer_calls
        (trace (run example_later
                  (snd (ensureDependenciesForPackageRoot example_httpRoot
                          (run example_events example_session))))))
     (href example_httpRoot) = 1 \<and>
   ensureDependenciesForPackageRoot example_httpRoot
     (run example_later
        (snd (ensureDependenciesForPackageRoot example_httpRoot
                (run example_events example_session)))) =
     (0, run example_later
           (snd (ensureDependenciesForPackageRoot example_httpRoot
                   (run example_events example_session))))"
proof -
  let ?s = "run example_events example_session"
  let ?s1 = "snd (ensureDependenciesForPackageRoot example_httpRoot ?s)"
  let ?s2 = "run example_later ?s1"
  have "fst (ensureDependenciesForPackageRoot example_httpRoot ?s) = 0"
    by code_simp
  then have first: "ensureDependenciesForPackageRoot example_httpRoot ?s = (0, ?s1)"
    by (simp add: prod_eq_iff)
  have calls: "installer_calls (trace ?s2) = [''https://h/repo@abc/-/raw/'']"
    by code_simp
  have runs: "installer_runs (trace ?s2) = [''/tmp/c/repo'']"
    by code_simp
  from installer_single_flight
         [where events = example_events and httpRoot = example_httpRoot
            and fileRoot = example_fileRoot and tempDir = example_tempDir
            and config = example_settings
            and params = "\<lparr>client_params = ''{}'', rootPath = ''/tmp/c/repo'',
                            rootUri = ''file:///tmp/c/repo/''\<rparr>"
            and packageRoots = "[example_httpRoot]" and extracted = example_files
            and s = ?s and m = example_httpRoot and p = 0 and ?s1.0 = ?s1
            and later = example_later and ?s2.0 = ?s2
            and w = example_world and w' = example_world]
       first
  have "count_list (installer_calls (trace ?s2)) (href example_httpRoot) = 1 \<and>
        ensureDependenciesForPackageRoot example_httpRoot ?s2 = (0, ?s2)"
    by (simp add: example_session_def [symmetric])
  with first calls runs show ?thesis by simp
qed

section \<open>Locations in dependencies\<close>


















end
